theory Spec2Isabelle
  imports Main "HOL-Library.Char_ord" "HOL-Library.List_Lexorder" "HOL-Library.Product_Lexorder"
begin

section \<open>Tables and data frames\<close>

text \<open>
  The dwellings table handed to \<open>summarize_units\<close> has the three columns
  \<open>BL_ID\<close>, \<open>COLL_AREA\<close> and \<open>DWEL_UNITS\<close>; the last one may be NULL in the
  geodatabase.  Building identifiers and unit counts are Python integers, collection area
  labels are strings, compared code point by code point (the lexicographic order on
  character lists).
\<close>

type_synonym table_row = "int \<times> string \<times> int option"
type_synonym df_row = "int \<times> string \<times> int"

definition BL_ID :: "int \<times> string \<times> 'u \<Rightarrow> int" where
  "BL_ID r = fst r"

definition COLL_AREA :: "int \<times> string \<times> 'u \<Rightarrow> string" where
  "COLL_AREA r = fst (snd r)"

definition DWEL_UNITS :: "int \<times> string \<times> 'u \<Rightarrow> 'u" where
  "DWEL_UNITS r = snd (snd r)"

text \<open>
  \<open>arcpy.da.FeatureClassToNumPyArray(..., null_value={"DWEL_UNITS": 0})\<close> followed by
  \<open>pd.DataFrame\<close>: the rows in table order, a NULL unit count replaced by \<open>0\<close>.
\<close>

definition null_value :: "int option \<Rightarrow> int" where
  "null_value u = (case u of None \<Rightarrow> 0 | Some n \<Rightarrow> n)"

definition FeatureClassToNumPyArray :: "table_row list \<Rightarrow> df_row list" where
  "FeatureClassToNumPyArray tbl =
     map (\<lambda>r. (BL_ID r, COLL_AREA r, null_value (DWEL_UNITS r))) tbl"

text \<open>\<open>df.query("DWEL_UNITS <= 6")\<close>: a filter on the rows of the frame.\<close>

definition query_le6 :: "df_row list \<Rightarrow> df_row list" where
  "query_le6 df = filter (\<lambda>r. DWEL_UNITS r \<le> 6) df"

text \<open>
  \<open>groupby(keys).agg(...)\<close>: one output row per distinct key, the keys in ascending
  order (pandas sorts group keys), each carrying the aggregate of the rows of its group.
\<close>

definition groupby_agg ::
  "('r \<Rightarrow> 'k::linorder) \<Rightarrow> ('r list \<Rightarrow> 'v) \<Rightarrow> 'r list \<Rightarrow> ('k \<times> 'v) list" where
  "groupby_agg key agg rows =
     map (\<lambda>k. (k, agg (filter (\<lambda>r. key r = k) rows))) (sort (remdups (map key rows)))"

text \<open>
  The first aggregation, \<open>case_fields = ["COLL_AREA", "BL_ID"]\<close> with
  \<open>{"DWEL_UNITS": "sum", "BL_ID": "count"}\<close>: the index is the pair (area, building),
  the two columns are the sum of the units and the number of rows of the group.
\<close>

type_synonym summary_row = "(string \<times> int) \<times> int \<times> int"
type_synonym final_row = "string \<times> int \<times> int"

definition agg_sum_count :: "df_row list \<Rightarrow> int \<times> int" where
  "agg_sum_count g = (sum_list (map DWEL_UNITS g), int (length g))"

definition df_summary_one :: "df_row list \<Rightarrow> summary_row list" where
  "df_summary_one df =
     groupby_agg (\<lambda>r. (COLL_AREA r, BL_ID r)) agg_sum_count (query_le6 df)"

text \<open>
  The second aggregation, \<open>df_summary_one.groupby("COLL_AREA")\<close> with the same
  dictionary: the sum of the group sums and the number of rows of \<open>df_summary_one\<close>
  (that is, of (area, building) groups) in the area.
\<close>

definition agg_sum_count2 :: "summary_row list \<Rightarrow> int \<times> int" where
  "agg_sum_count2 g = (sum_list (map (\<lambda>s. fst (snd s)) g), int (length g))"

definition df_by_area :: "summary_row list \<Rightarrow> final_row list" where
  "df_by_area s1 = groupby_agg (\<lambda>s. fst (fst s)) agg_sum_count2 s1"

text \<open>\<open>df_final.sum()\<close>: the column sums.\<close>

definition column_sums :: "final_row list \<Rightarrow> int \<times> int" where
  "column_sums f = (sum_list (map (\<lambda>r. fst (snd r)) f), sum_list (map (\<lambda>r. snd (snd r)) f))"

text \<open>
  \<open>df_final.loc[label] = values\<close>: pandas overwrites the row carrying the label when
  the index has it, and appends a new last row otherwise.
\<close>

definition loc_set :: "string \<Rightarrow> int \<times> int \<Rightarrow> final_row list \<Rightarrow> final_row list" where
  "loc_set label v f =
     (if label \<in> set (map fst f)
      then map (\<lambda>r. if fst r = label then (label, v) else r) f
      else f @ [(label, v)])"

text \<open>
  \<open>df_final.rename(columns=..., index={"COLL_AREA": "COLLECTION AREA"})\<close>: the column
  names change (the columns stay in place), and an index \<^emph>\<open>label\<close> equal to
  \<open>COLL_AREA\<close> is replaced.
\<close>

definition rename_index :: "final_row list \<Rightarrow> final_row list" where
  "rename_index f =
     map (\<lambda>r. (if fst r = ''COLL_AREA'' then ''COLLECTION AREA'' else fst r, snd r)) f"

definition df_final :: "summary_row list \<Rightarrow> final_row list" where
  "df_final s1 =
     (let f = df_by_area s1 in rename_index (loc_set ''TOTAL'' (column_sums f) f))"

text \<open>The two frames \<open>summarize_units\<close> returns, as functions of the table.\<close>

definition summarize_units_frames :: "table_row list \<Rightarrow> final_row list \<times> summary_row list" where
  "summarize_units_frames tbl =
     (let df = FeatureClassToNumPyArray tbl;
          s1 = df_summary_one df
      in (df_final s1, s1))"

section \<open>Effects: log, files, geodatabase store\<close>

text \<open>
  The script runs against a geodatabase store (datasets addressed by path), appends records
  to a log file through \<open>logger\<close> (level \<open>debug\<close>, so every record is kept), and
  writes files in its working directory.  Output of \<open>print\<close> is not modelled.
  An f-string is kept as its pieces: the literal text and the interpolated numbers.
\<close>

datatype level = DEBUG | INFO | WARNING | ERROR | CRITICAL

datatype part = Str string | Num int

type_synonym message = "part list"

datatype exn = ExecuteError string | RuntimeError string | KeyError string

text \<open>\<open>str(e)\<close>; a \<open>KeyError\<close> prints the \<open>repr\<close> of its key.\<close>

fun str_exn :: "exn \<Rightarrow> string" where
  "str_exn (ExecuteError m) = m"
| "str_exn (RuntimeError m) = m"
| "str_exn (KeyError k) = [CHR 0x27] @ k @ [CHR 0x27]"

type_synonym path = "string list"

text \<open>\<open>os.path.join\<close> of a path and one more component.\<close>

definition os_path_join :: "path \<Rightarrow> string \<Rightarrow> path" where
  "os_path_join p name = p @ [name]"

text \<open>A dataset is inside a container (a geodatabase) when the container's path is a prefix of its path.\<close>

definition inside :: "path \<Rightarrow> path \<Rightarrow> bool" where
  "inside container p = (take (length container) p = container)"

text \<open>
  The kinds of dataset the script handles, each with the fields the script uses:
  building polygons (\<open>BL_ID\<close>, shape), the building-use table (\<open>BL_ID\<close>,
  \<open>DWEL_UNITS\<close>), collection areas (\<open>COLL_AREA\<close>, shape), the output of the spatial
  join (\<open>BL_ID\<close>, shape, \<open>Join_Count\<close>, \<open>COLL_AREA\<close>) and the same with the
  building-use fields joined on (\<open>DWEL_UNITS\<close>).
\<close>

type_synonym 'g area_join_row = "int \<times> 'g \<times> nat \<times> string option"
type_synonym 'g use_join_row = "int \<times> 'g \<times> nat \<times> string option \<times> int option"

datatype 'g dataset =
    Polygons "(int \<times> 'g) list"
  | UseTable "(int \<times> int option) list"
  | Areas "(string \<times> 'g) list"
  | AreaJoin "'g area_join_row list"
  | UseJoin "'g use_join_row list"

text \<open>
  The files pandas writes are kept as tables of cells: a CSV file as the list of its
  records, a workbook as the list of its named sheets, each the list of its rows.
  \<open>Merged_cell\<close> is a position of a sheet that belongs to the merged cell starting
  above it.
\<close>

datatype cell = Int_cell int | Str_cell string | Merged_cell

datatype document = Csv "cell list list" | Excel "(string \<times> cell list list) list"

text \<open>The call sites of the geoprocessing engine, in program order.\<close>

datatype call =
    CreateFileGDB | Copy_building_polygon | Copy_BUILDING_USE | Copy_waste_coll_area
  | Dissolve | SpatialJoin | JoinField | Export_joined | GetCount | ToNumPyArray

definition all_calls :: "call list" where
  "all_calls = [CreateFileGDB, Copy_building_polygon, Copy_BUILDING_USE, Copy_waste_coll_area,
                Dissolve, SpatialJoin, JoinField, Export_joined, GetCount, ToNumPyArray]"

text \<open>
  What a run depends on besides the store: the settings (\<open>SERVER_SDE\<close>, the script
  directory, today's date as \<open>%m%d%Y\<close>), the engine's geometry (which shapes intersect,
  how the parts of a building are merged into one multi-part shape), and which engine
  calls fail (\<open>fault c = Some msg\<close>: the call at site \<open>c\<close> raises with the message
  \<open>msg\<close>).
\<close>

record 'g env =
  SDE :: path
  SCRIPT_DIR :: path
  TODAY :: string
  intersects :: "'g \<Rightarrow> 'g \<Rightarrow> bool"
  merge_parts :: "'g list \<Rightarrow> 'g"
  fault :: "call \<Rightarrow> string option"

text \<open>
  The state of a run.  \<open>trace\<close> lists the engine calls made so far, each with the paths it
  was given to read and the paths it was given to write.
\<close>

record 'g state =
  store :: "path \<Rightarrow> 'g dataset option"
  logfile :: "(level \<times> message) list"
  files :: "(string \<times> document) list"
  trace :: "(call \<times> path list \<times> path list) list"

type_synonym ('g, 'a) prog = "'g state \<Rightarrow> (exn + 'a) \<times> 'g state"

definition return :: "'a \<Rightarrow> ('g, 'a) prog" where
  "return a s = (Inr a, s)"

definition and_then :: "('g, 'a) prog \<Rightarrow> ('a \<Rightarrow> ('g, 'b) prog) \<Rightarrow> ('g, 'b) prog" where
  "and_then m f s = (case m s of (Inl e, s') \<Rightarrow> (Inl e, s') | (Inr a, s') \<Rightarrow> f a s')"

definition try_except :: "('g, 'a) prog \<Rightarrow> (exn \<Rightarrow> ('g, 'a) prog) \<Rightarrow> ('g, 'a) prog" where
  "try_except m h s = (case m s of (Inl e, s') \<Rightarrow> h e s' | (Inr a, s') \<Rightarrow> (Inr a, s'))"

definition logger :: "level \<Rightarrow> message \<Rightarrow> ('g, unit) prog" where
  "logger lvl msg s = (Inr (), s\<lparr>logfile := logfile s @ [(lvl, msg)]\<rparr>)"

definition write_file :: "string \<Rightarrow> document \<Rightarrow> ('g, unit) prog" where
  "write_file name content s = (Inr (), s\<lparr>files := files s @ [(name, content)]\<rparr>)"

definition missing_dataset :: exn where
  "missing_dataset = ExecuteError ''ERROR 000732: Dataset does not exist or is not supported''"

text \<open>
  One geoprocessing call: it is recorded in the trace, raises \<open>ExecuteError\<close> when the
  engine fails or an input is missing or of the wrong kind, and otherwise stores the tool's
  result at the output path (overwriting, \<open>arcpy.env.overwriteOutput = True\<close>) and returns
  that path.  A call that raises leaves the store as it was.
\<close>

definition geoprocess ::
  "'g env \<Rightarrow> call \<Rightarrow> path list \<Rightarrow> path \<Rightarrow> ('g dataset list \<Rightarrow> 'g dataset option) \<Rightarrow> ('g, path) prog" where
  "geoprocess env c ins out tool s =
     (let s1 = s\<lparr>trace := trace s @ [(c, ins, [out])]\<rparr> in
      case fault env c of
        Some msg \<Rightarrow> (Inl (ExecuteError msg), s1)
      | None \<Rightarrow>
         (case those (map (store s) ins) of
            None \<Rightarrow> (Inl missing_dataset, s1)
          | Some ds \<Rightarrow>
             (case tool ds of
                None \<Rightarrow> (Inl missing_dataset, s1)
              | Some d \<Rightarrow> (Inr out, s1\<lparr>store := (store s1)(out \<mapsto> d)\<rparr>))))"

text \<open>
  \<open>arcpy.CreateFileGDB_management\<close>: ``This will overwrite any existing gdb, clearing any
  existing feature classes''.
\<close>

definition CreateFileGDB_management :: "'g env \<Rightarrow> path \<Rightarrow> string \<Rightarrow> ('g, path) prog" where
  "CreateFileGDB_management env out_folder_path out_name s =
     (let gdb = os_path_join out_folder_path out_name;
          s1 = s\<lparr>trace := trace s @ [(CreateFileGDB, [], [gdb])]\<rparr> in
      case fault env CreateFileGDB of
        Some msg \<Rightarrow> (Inl (ExecuteError msg), s1)
      | None \<Rightarrow> (Inr gdb, s1\<lparr>store := (\<lambda>p. if inside gdb p then None else store s1 p)\<rparr>))"

fun row_count :: "'g dataset \<Rightarrow> nat" where
  "row_count (Polygons r) = length r"
| "row_count (UseTable r) = length r"
| "row_count (Areas r) = length r"
| "row_count (AreaJoin r) = length r"
| "row_count (UseJoin r) = length r"

definition GetCount_management :: "'g env \<Rightarrow> path \<Rightarrow> ('g, int) prog" where
  "GetCount_management env p s =
     (let s1 = s\<lparr>trace := trace s @ [(GetCount, [p], [])]\<rparr> in
      case fault env GetCount of
        Some msg \<Rightarrow> (Inl (ExecuteError msg), s1)
      | None \<Rightarrow>
         (case store s p of
            None \<Rightarrow> (Inl missing_dataset, s1)
          | Some d \<Rightarrow> (Inr (int (row_count d)), s1)))"

text \<open>
  Reading the fields \<open>BL_ID\<close>, \<open>COLL_AREA\<close>, \<open>DWEL_UNITS\<close> of a table; only the joined
  table has them.  A NULL text field arrives in the array as the string \<open>None\<close>.
\<close>

fun read_fields :: "'g dataset \<Rightarrow> table_row list option" where
  "read_fields (UseJoin rows) =
     Some (map (\<lambda>(b, g, n, a, u). (b, (case a of None \<Rightarrow> ''None'' | Some l \<Rightarrow> l), u)) rows)"
| "read_fields _ = None"

definition da_FeatureClassToNumPyArray :: "'g env \<Rightarrow> path \<Rightarrow> ('g, df_row list) prog" where
  "da_FeatureClassToNumPyArray env p s =
     (let s1 = s\<lparr>trace := trace s @ [(ToNumPyArray, [p], [])]\<rparr> in
      case fault env ToNumPyArray of
        Some msg \<Rightarrow> (Inl (RuntimeError msg), s1)
      | None \<Rightarrow>
         (case store s p of
            None \<Rightarrow> (Inl (RuntimeError ''cannot open table''), s1)
          | Some d \<Rightarrow>
             (case read_fields d of
                None \<Rightarrow> (Inl (RuntimeError ''a column was specified that does not exist''), s1)
              | Some tbl \<Rightarrow> (Inr (FeatureClassToNumPyArray tbl), s1))))"

section \<open>The geoprocessing tools\<close>

text \<open>
  Modelled from the spec: the engine's merge of polygon fragments is not part of the
  repository; the shape of a building is the merge of the shapes of all polygons carrying
  its identifier (``merge same-building polygon fragments into one polygon'').
\<close>

definition building_shape :: "('g list \<Rightarrow> 'g) \<Rightarrow> (int \<times> 'g) list \<Rightarrow> int \<Rightarrow> 'g" where
  "building_shape merge ps b = merge (map snd (filter (\<lambda>p. fst p = b) ps))"

text \<open>
  Modelled from the spec: the engine's Dissolve tool is not part of the repository; the
  spec says it must ``merge same-building polygon fragments into one polygon per building
  identifier'', and the call asks for \<open>dissolve_field=["BL_ID"]\<close> and \<open>MULTI_PART\<close>.
  One output feature per distinct \<open>BL_ID\<close>, its shape the merge of the parts.
\<close>

definition Dissolve_rows :: "('g list \<Rightarrow> 'g) \<Rightarrow> (int \<times> 'g) list \<Rightarrow> (int \<times> 'g) list" where
  "Dissolve_rows merge ps = map (\<lambda>b. (b, building_shape merge ps b)) (remdups (map fst ps))"

text \<open>
  Modelled from the spec: the engine's Spatial Join tool is not part of the repository; the
  spec says ``one-to-one spatial join of buildings to the collection area they fall
  inside'', and the call asks for \<open>JOIN_ONE_TO_ONE\<close>, \<open>KEEP_ALL\<close> and the match option
  \<open>INTERSECT\<close>.  One output row per target feature; \<open>Join_Count\<close> is the number of
  join features matching it, and the attributes are those of the first match (NULL when
  there is none; \<open>KEEP_ALL\<close> keeps the row).
\<close>

definition SpatialJoin_rows ::
  "('g \<Rightarrow> 'g \<Rightarrow> bool) \<Rightarrow> (int \<times> 'g) list \<Rightarrow> (string \<times> 'g) list \<Rightarrow> 'g area_join_row list" where
  "SpatialJoin_rows isect targets joins =
     map (\<lambda>t. (fst t, snd t,
               length (filter (\<lambda>a. isect (snd t) (snd a)) joins),
               map_option fst (find (\<lambda>a. isect (snd t) (snd a)) joins)))
         targets"

text \<open>
  Modelled from the spec: the engine's Join Field tool is not part of the repository; the
  spec says ``attribute join of per-unit-count data onto the joined buildings by building
  identifier''.  Every input row is kept and receives the fields of the first record of
  the join table with the same \<open>BL_ID\<close> (NULL when there is none).
\<close>

definition JoinField_rows :: "'g area_join_row list \<Rightarrow> (int \<times> int option) list \<Rightarrow> 'g use_join_row list" where
  "JoinField_rows rows use =
     map (\<lambda>(b, g, n, a).
            (b, g, n, a, (case find (\<lambda>u. fst u = b) use of None \<Rightarrow> None | Some u \<Rightarrow> snd u)))
         rows"

text \<open>The export's \<open>where_clause="Join_Count > 0"\<close>.\<close>

definition Join_Count :: "'g use_join_row \<Rightarrow> nat" where
  "Join_Count r = fst (snd (snd r))"

definition where_Join_Count :: "'g use_join_row list \<Rightarrow> 'g use_join_row list" where
  "where_Join_Count rows = filter (\<lambda>r. Join_Count r > 0) rows"

text \<open>The tools as partial functions on the datasets they are given.\<close>

definition copy_tool :: "'g dataset list \<Rightarrow> 'g dataset option" where
  "copy_tool ds = (case ds of [d] \<Rightarrow> Some d | _ \<Rightarrow> None)"

definition Dissolve_tool :: "('g list \<Rightarrow> 'g) \<Rightarrow> 'g dataset list \<Rightarrow> 'g dataset option" where
  "Dissolve_tool merge ds =
     (case ds of [Polygons ps] \<Rightarrow> Some (Polygons (Dissolve_rows merge ps)) | _ \<Rightarrow> None)"

definition SpatialJoin_tool :: "('g \<Rightarrow> 'g \<Rightarrow> bool) \<Rightarrow> 'g dataset list \<Rightarrow> 'g dataset option" where
  "SpatialJoin_tool isect ds =
     (case ds of [Polygons ts, Areas js] \<Rightarrow> Some (AreaJoin (SpatialJoin_rows isect ts js))
      | _ \<Rightarrow> None)"

definition JoinField_tool :: "'g dataset list \<Rightarrow> 'g dataset option" where
  "JoinField_tool ds =
     (case ds of [AreaJoin rows, UseTable us] \<Rightarrow> Some (UseJoin (JoinField_rows rows us))
      | _ \<Rightarrow> None)"

definition Export_tool :: "'g dataset list \<Rightarrow> 'g dataset option" where
  "Export_tool ds =
     (case ds of [UseJoin rows] \<Rightarrow> Some (UseJoin (where_Join_Count rows)) | _ \<Rightarrow> None)"

section \<open>The two functions of the script\<close>

text \<open>
  \<open>DataFrame.to_csv(file_name, index=False)\<close>: the header line with the column names,
  then one record per row with the values of the columns; the index is left out.  The
  final frame has the columns \<open>SUM of DWELLING UNITS\<close> and \<open>BL_ID COUNT\<close> (renamed at
  lines 85 to 89), the summary frame the columns \<open>DWEL_UNITS\<close> and \<open>BL_ID\<close> of the
  aggregation, the original frame the three columns read from the table.
\<close>

definition csv_final :: "final_row list \<Rightarrow> cell list list" where
  "csv_final f =
     [Str_cell ''SUM of DWELLING UNITS'', Str_cell ''BL_ID COUNT'']
     # map (\<lambda>r. [Int_cell (fst (snd r)), Int_cell (snd (snd r))]) f"

definition csv_summary :: "summary_row list \<Rightarrow> cell list list" where
  "csv_summary s1 =
     [Str_cell ''DWEL_UNITS'', Str_cell ''BL_ID'']
     # map (\<lambda>r. [Int_cell (fst (snd r)), Int_cell (snd (snd r))]) s1"

definition csv_original :: "df_row list \<Rightarrow> cell list list" where
  "csv_original df =
     [Str_cell ''BL_ID'', Str_cell ''COLL_AREA'', Str_cell ''DWEL_UNITS'']
     # map (\<lambda>r. [Int_cell (BL_ID r), Str_cell (COLL_AREA r), Int_cell (DWEL_UNITS r)]) df"

text \<open>
  \<open>summarize_units\<close>: the table is read, aggregated, and the three frames are written
  with \<open>to_csv(file_name, index=False)\<close>.
\<close>

definition summarize_units :: "'g env \<Rightarrow> path \<Rightarrow> ('g, final_row list \<times> summary_row list) prog" where
  "summarize_units env dwellings_table =
     and_then (da_FeatureClassToNumPyArray env dwellings_table) (\<lambda>df.
     and_then (write_file ''df_final.csv'' (Csv (csv_final (df_final (df_summary_one df))))) (\<lambda>_.
     and_then (write_file ''df_summary.csv'' (Csv (csv_summary (df_summary_one df)))) (\<lambda>_.
     and_then (write_file ''df_original.csv'' (Csv (csv_original df))) (\<lambda>_.
     return (df_final (df_summary_one df), df_summary_one df)))))"

definition joined_records_msg :: "int \<Rightarrow> message" where
  "joined_records_msg n =
     [Str (CHR 0x09 # ''Number of Joined Records: ''), Num n, Str ''. (Should be >100k)'']"

definition waste_analysis :: "'g env \<Rightarrow> path \<Rightarrow> path \<Rightarrow> path \<Rightarrow> path \<Rightarrow> ('g, path) prog" where
  "waste_analysis env workspace building_polygons building_use collection_areas =
     and_then (logger DEBUG [Str (CHR 0x0A # ''Dissolving Building Polygons...'')]) (\<lambda>_.
     and_then (geoprocess env Dissolve [building_polygons]
                 (os_path_join workspace ''dissolved_building_polygons'')
                 (Dissolve_tool (merge_parts env))) (\<lambda>dissolved_building_polygons.
     and_then (logger DEBUG
                 [Str (CHR 0x0A # ''Spatially Joining Building Polygons and Waste Collection Areas...'')]) (\<lambda>_.
     and_then (geoprocess env SpatialJoin [dissolved_building_polygons, collection_areas]
                 (os_path_join workspace ''buildings_w_waste_areas'')
                 (SpatialJoin_tool (intersects env))) (\<lambda>buildings_waste_areas.
     and_then (geoprocess env JoinField [buildings_waste_areas, building_use]
                 buildings_waste_areas JoinField_tool) (\<lambda>building_polygons_w_bld_use.
     and_then (geoprocess env Export_joined [building_polygons_w_bld_use]
                 (os_path_join workspace ''buildings_w_waste_areas_blduse'')
                 Export_tool) (\<lambda>joined_feature.
     and_then (GetCount_management env joined_feature) (\<lambda>joined_records_count.
     and_then (if joined_records_count < 100000
               then logger WARNING (joined_records_msg joined_records_count)
               else logger DEBUG (joined_records_msg joined_records_count)) (\<lambda>_.
     return joined_feature))))))))"

section \<open>The top-level run\<close>

definition OUTPUT_EXCEL_NAME :: "'g env \<Rightarrow> string" where
  "OUTPUT_EXCEL_NAME env = ''Building_Dwellings_Summarized_'' @ TODAY env @ ''.xlsx''"

definition BUILDING_POLYGONS_FEATURE :: "'g env \<Rightarrow> path" where
  "BUILDING_POLYGONS_FEATURE env = os_path_join (SDE env) ''SDEADM.BLD_building_polygon''"

definition WASTE_COLLECTION_AREAS_FEATURE :: "'g env \<Rightarrow> path" where
  "WASTE_COLLECTION_AREAS_FEATURE env =
     os_path_join (os_path_join (SDE env) ''SDEADM.ADM_solid_waste'') ''SDEADM.ADM_waste_coll_area''"

definition BUILDING_USE_TABLE :: "'g env \<Rightarrow> path" where
  "BUILDING_USE_TABLE env = os_path_join (SDE env) ''SDEADM.BLD_BUILDING_USE''"

definition working_gdb :: "'g env \<Rightarrow> path" where
  "working_gdb env = os_path_join (SCRIPT_DIR env) ''temp_workspace.gdb''"

text \<open>
  Lines 181 to 204, before the \<open>try\<close>: the workspace is created and the three
  datasets are copied into it.  The result is the workspace and the three local paths.
\<close>

definition staging :: "'g env \<Rightarrow> ('g, path \<times> path \<times> path \<times> path) prog" where
  "staging env =
     and_then (logger INFO [Str ''Preparing Workspace...'']) (\<lambda>_.
     and_then (CreateFileGDB_management env (SCRIPT_DIR env) ''temp_workspace.gdb'') (\<lambda>gdb.
     and_then (geoprocess env Copy_building_polygon [BUILDING_POLYGONS_FEATURE env]
                 (os_path_join gdb ''BLD_building_polygon'') copy_tool) (\<lambda>local_bld_poly.
     and_then (geoprocess env Copy_BUILDING_USE [BUILDING_USE_TABLE env]
                 (os_path_join gdb ''BLD_BUILDING_USE'') copy_tool) (\<lambda>local_bld_use.
     and_then (geoprocess env Copy_waste_coll_area [WASTE_COLLECTION_AREAS_FEATURE env]
                 (os_path_join gdb ''ADM_waste_coll_area'') copy_tool) (\<lambda>local_waste_areas.
     return (gdb, local_bld_poly, local_bld_use, local_waste_areas))))))"

text \<open>Lines 207 to 218: the geometry pipeline and the aggregation.\<close>

definition aggregation ::
  "'g env \<Rightarrow> path \<times> path \<times> path \<times> path \<Rightarrow> ('g, final_row list \<times> summary_row list) prog" where
  "aggregation env locs =
     (case locs of (gdb, local_bld_poly, local_bld_use, local_waste_areas) \<Rightarrow>
     and_then (waste_analysis env gdb local_bld_poly local_bld_use local_waste_areas)
       (\<lambda>waste_building_units.
     and_then (logger DEBUG [Str (CHR 0x0A # ''Summarizing Attributes...'')]) (\<lambda>_.
     summarize_units env waste_building_units)))"

text \<open>
  \<open>df_final.loc["AREA 1", "SUM of DWELLING UNITS"]\<close>: the first column of the row with
  that label, \<open>KeyError\<close> when no row has it.
\<close>

definition loc_get :: "final_row list \<Rightarrow> string \<Rightarrow> ('g, int) prog" where
  "loc_get f label s =
     (case map_of f label of None \<Rightarrow> (Inl (KeyError label), s) | Some v \<Rightarrow> (Inr (fst v), s))"

definition summary_rows_msg :: "int \<Rightarrow> message" where
  "summary_rows_msg n = [Str ''# of Summary Rows: '', Num n, Str '', Expected: ~130k'']"

definition area_1_units_msg :: "int \<Rightarrow> message" where
  "area_1_units_msg n = [Str ''# of Area 1 Units: '', Num n, Str '', Expected: ~34k'']"

text \<open>Lines 220 to 234: the two sanity checks on the frames.\<close>

definition sanity_checks :: "final_row list \<Rightarrow> summary_row list \<Rightarrow> ('g, unit) prog" where
  "sanity_checks f sm =
     and_then (return (int (length sm))) (\<lambda>summary_rows.
     and_then (loc_get f ''AREA 1'') (\<lambda>area_1_units.
     and_then (if summary_rows < 130000
               then logger WARNING (summary_rows_msg summary_rows)
               else logger DEBUG (summary_rows_msg summary_rows)) (\<lambda>_.
     if area_1_units < 30000
     then logger WARNING (area_1_units_msg area_1_units)
     else logger DEBUG (area_1_units_msg area_1_units))))"

text \<open>
  \<open>DataFrame.to_excel(writer, sheet_name=...)\<close> writes the index too: the header row has
  the names of the index levels followed by the column names, and every row starts with
  its index labels.  The index of the final frame is named \<open>COLL_AREA\<close> (renaming the
  index at line 87 changes labels, not the name).
\<close>

definition sheet_final :: "final_row list \<Rightarrow> cell list list" where
  "sheet_final f =
     [Str_cell ''COLL_AREA'', Str_cell ''SUM of DWELLING UNITS'', Str_cell ''BL_ID COUNT'']
     # map (\<lambda>r. [Str_cell (fst r), Int_cell (fst (snd r)), Int_cell (snd (snd r))]) f"

text \<open>
  The summary frame has the two index levels \<open>COLL_AREA\<close> and \<open>BL_ID\<close>.  With the
  default \<open>merge_cells=True\<close> a run of rows with the same label at the outer level gets
  one cell for that label, merged over the rows of the run: the label stands in the first
  row of the run and the positions below it belong to the merged cell.  \<open>prev\<close> is the
  outer label of the row above.
\<close>

fun summary_rows_cells :: "string option \<Rightarrow> summary_row list \<Rightarrow> cell list list" where
  "summary_rows_cells prev [] = []"
| "summary_rows_cells prev (r # rs) =
     [if prev = Some (fst (fst r)) then Merged_cell else Str_cell (fst (fst r)),
      Int_cell (snd (fst r)), Int_cell (fst (snd r)), Int_cell (snd (snd r))]
     # summary_rows_cells (Some (fst (fst r))) rs"

definition sheet_summary :: "summary_row list \<Rightarrow> cell list list" where
  "sheet_summary s1 =
     [Str_cell ''COLL_AREA'', Str_cell ''BL_ID'', Str_cell ''DWEL_UNITS'', Str_cell ''BL_ID'']
     # summary_rows_cells None s1"

text \<open>Lines 236 to 244: the export of the workbook with its two sheets.\<close>

definition export_to_excel :: "'g env \<Rightarrow> final_row list \<Rightarrow> summary_row list \<Rightarrow> ('g, unit) prog" where
  "export_to_excel env f sm =
     (if length sm > 0
      then and_then (write_file (OUTPUT_EXCEL_NAME env)
                       (Excel [(''final'', sheet_final f), (''summary'', sheet_summary sm)])) (\<lambda>_.
           logger DEBUG [Str (CHR 0x0A # ''Exported to Excel'')])
      else return ())"

text \<open>Lines 246 to 254: the two handlers.\<close>

definition handler :: "exn \<Rightarrow> ('g, unit) prog" where
  "handler e =
     (case e of
        ExecuteError m \<Rightarrow> logger ERROR [Str ''ARCPY ERROR: '', Str m]
      | _ \<Rightarrow> logger ERROR [Str (str_exn e)])"

definition try_body :: "'g env \<Rightarrow> path \<times> path \<times> path \<times> path \<Rightarrow> ('g, unit) prog" where
  "try_body env locs =
     and_then (aggregation env locs) (\<lambda>(f, sm).
     and_then (sanity_checks f sm) (\<lambda>_.
     export_to_excel env f sm))"

text \<open>
  The whole run.  A result \<open>Inr ()\<close> is a normal end of the script, \<open>Inl e\<close> an exception
  that nothing caught.
\<close>

definition main :: "'g env \<Rightarrow> ('g, unit) prog" where
  "main env = and_then (staging env) (\<lambda>locs. try_except (try_body env locs) handler)"

definition initial :: "(path \<Rightarrow> 'g dataset option) \<Rightarrow> 'g state" where
  "initial st = \<lparr>store = st, logfile = [], files = [], trace = []\<rparr>"

section \<open>Reading a frame\<close>

text \<open>
  The entry of the unit-sum column, and of the count column, in the row of a frame with a
  given label; \<open>0\<close> when the frame has no such row.
\<close>

definition units_of :: "('k \<times> int \<times> int) list \<Rightarrow> 'k \<Rightarrow> int" where
  "units_of f k = (case map_of f k of None \<Rightarrow> 0 | Some v \<Rightarrow> fst v)"

definition count_of :: "('k \<times> int \<times> int) list \<Rightarrow> 'k \<Rightarrow> int" where
  "count_of f k = (case map_of f k of None \<Rightarrow> 0 | Some v \<Rightarrow> snd v)"

section \<open>Assertions about runs\<close>

text \<open>The position of a call site in the program.\<close>

fun rank :: "call \<Rightarrow> nat" where
  "rank CreateFileGDB = 0"
| "rank Copy_building_polygon = 1"
| "rank Copy_BUILDING_USE = 2"
| "rank Copy_waste_coll_area = 3"
| "rank Dissolve = 4"
| "rank SpatialJoin = 5"
| "rank JoinField = 6"
| "rank Export_joined = 7"
| "rank GetCount = 8"
| "rank ToNumPyArray = 9"

text \<open>
  The access discipline of an engine call, as recorded in the trace: a call writes only
  inside the working geodatabase; the three staging copies read their source of record, and
  every other call reads only inside the working geodatabase.
\<close>

definition writes_ok :: "'g env \<Rightarrow> call \<times> path list \<times> path list \<Rightarrow> bool" where
  "writes_ok env t = list_all (inside (working_gdb env)) (snd (snd t))"

definition reads_ok :: "'g env \<Rightarrow> call \<times> path list \<times> path list \<Rightarrow> bool" where
  "reads_ok env t =
     (case fst t of
        CreateFileGDB \<Rightarrow> fst (snd t) = []
      | Copy_building_polygon \<Rightarrow> fst (snd t) = [BUILDING_POLYGONS_FEATURE env]
      | Copy_BUILDING_USE \<Rightarrow> fst (snd t) = [BUILDING_USE_TABLE env]
      | Copy_waste_coll_area \<Rightarrow> fst (snd t) = [WASTE_COLLECTION_AREAS_FEATURE env]
      | _ \<Rightarrow> list_all (inside (working_gdb env)) (fst (snd t)))"

text \<open>
  What a piece of the program may do to the state, whatever its outcome: the store changes
  only inside the working geodatabase; the calls it adds to the trace keep the access
  discipline, have ranks from \<open>lo\<close> up to (not including) \<open>hi\<close> and are made in program
  order, none twice; the records it logs have levels in \<open>lvls\<close>; and the files it
  writes have names in \<open>names\<close>.
\<close>

definition effect ::
  "'g env \<Rightarrow> string set \<Rightarrow> level set \<Rightarrow> nat \<Rightarrow> nat \<Rightarrow> 'g state \<Rightarrow> 'g state \<Rightarrow> bool" where
  "effect env names lvls lo hi s s' \<longleftrightarrow>
       (\<forall>p. \<not> inside (working_gdb env) p \<longrightarrow> store s' p = store s p)
     \<and> (\<exists>T. trace s' = trace s @ T
            \<and> list_all (\<lambda>t. reads_ok env t \<and> writes_ok env t \<and> lo \<le> rank (fst t) \<and> rank (fst t) < hi) T
            \<and> sorted_wrt (<) (map (\<lambda>t. rank (fst t)) T))
     \<and> (\<exists>L. logfile s' = logfile s @ L \<and> fst ` set L \<subseteq> lvls)
     \<and> (\<exists>F. files s' = files s @ F \<and> fst ` set F \<subseteq> names)"

text \<open>
  A program keeps a relation between the state before and the state after, whatever its
  outcome, and a result it returns satisfies \<open>Q\<close>.
\<close>

definition sat :: "('s \<Rightarrow> 's \<Rightarrow> bool) \<Rightarrow> ('a \<Rightarrow> bool) \<Rightarrow> ('s \<Rightarrow> ('e + 'a) \<times> 's) \<Rightarrow> bool" where
  "sat R Q m \<longleftrightarrow> (\<forall>s. R s (snd (m s)) \<and> (\<forall>a. fst (m s) = Inr a \<longrightarrow> Q a))"

text \<open>
  The table the four geoprocessing steps of \<open>waste_analysis\<close> compute from the building
  polygons, the building-use records and the collection areas.
\<close>

definition waste_table ::
  "'g env \<Rightarrow> (int \<times> 'g) list \<Rightarrow> (int \<times> int option) list \<Rightarrow> (string \<times> 'g) list \<Rightarrow> 'g use_join_row list" where
  "waste_table env ps us areas =
     where_Join_Count
       (JoinField_rows
          (SpatialJoin_rows (intersects env) (Dissolve_rows (merge_parts env) ps) areas) us)"

section \<open>A small concrete geometry, and a run on it\<close>

text \<open>
  Shapes as lists of grid cells: two shapes intersect when they share a cell, one is within
  the other when all its cells are cells of the other, and parts are merged by putting their
  cells together.
\<close>

definition cells_intersect :: "nat list \<Rightarrow> nat list \<Rightarrow> bool" where
  "cells_intersect g h = (\<exists>c \<in> set g. c \<in> set h)"

definition cells_within :: "nat list \<Rightarrow> nat list \<Rightarrow> bool" where
  "cells_within g h = list_all (\<lambda>c. c \<in> set h) g"

definition demo_env :: "(call \<Rightarrow> string option) \<Rightarrow> (nat list) env" where
  "demo_env flt =
     \<lparr>SDE = [''server.sde''], SCRIPT_DIR = [''scripts''], TODAY = ''11042026'',
      intersects = cells_intersect, merge_parts = concat, fault = flt\<rparr>"

definition no_fault :: "call \<Rightarrow> string option" where
  "no_fault c = None"

definition fault_at :: "call \<Rightarrow> string \<Rightarrow> call \<Rightarrow> string option" where
  "fault_at c msg c' = (if c' = c then Some msg else None)"

text \<open>
  Building 1 has two parts, both in \<open>AREA 1\<close>; building 2 is in \<open>AREA 2\<close> and has a
  building-use record without unit count; building 3 lies in no collection area.
\<close>

definition demo_store :: "path \<Rightarrow> (nat list) dataset option" where
  "demo_store =
     (((\<lambda>_. None)
        ([''server.sde'', ''SDEADM.BLD_building_polygon''] \<mapsto>
           Polygons [(1, [1]), (2, [5]), (1, [2]), (3, [9])]))
        ([''server.sde'', ''SDEADM.BLD_BUILDING_USE''] \<mapsto>
           UseTable [(1, Some 4), (2, None), (3, Some 2)]))
        ([''server.sde'', ''SDEADM.ADM_solid_waste'', ''SDEADM.ADM_waste_coll_area''] \<mapsto>
           Areas [(''AREA 1'', [1, 2, 3]), (''AREA 2'', [4, 5, 6])])"

text \<open>What \<open>staging\<close> returns when it succeeds: the workspace and the three local paths.\<close>

definition staged :: "'g env \<Rightarrow> path \<times> path \<times> path \<times> path" where
  "staged env =
     (working_gdb env,
      os_path_join (working_gdb env) ''BLD_building_polygon'',
      os_path_join (working_gdb env) ''BLD_BUILDING_USE'',
      os_path_join (working_gdb env) ''ADM_waste_coll_area'')"

definition csv_names :: "string set" where
  "csv_names = {''df_final.csv'', ''df_summary.csv'', ''df_original.csv''}"

text \<open>The same datasets with collection areas labelled \<open>NORTH\<close> and \<open>SOUTH\<close>.\<close>

definition demo_store_other_labels :: "path \<Rightarrow> (nat list) dataset option" where
  "demo_store_other_labels =
     (((\<lambda>_. None)
        ([''server.sde'', ''SDEADM.BLD_building_polygon''] \<mapsto>
           Polygons [(1, [1]), (2, [5]), (1, [2]), (3, [9])]))
        ([''server.sde'', ''SDEADM.BLD_BUILDING_USE''] \<mapsto>
           UseTable [(1, Some 4), (2, None), (3, Some 2)]))
        ([''server.sde'', ''SDEADM.ADM_solid_waste'', ''SDEADM.ADM_waste_coll_area''] \<mapsto>
           Areas [(''NORTH'', [1, 2, 3]), (''SOUTH'', [4, 5, 6])])"

section \<open>The report as the specification words it\<close>

text \<open>
  The report in the words of the specification: the unit total of a building in an area is
  the sum over all its rows; a building is included when that total is at most 6; an area
  row counts the included buildings of the area and sums their totals.
\<close>

definition building_total :: "df_row list \<Rightarrow> string \<times> int \<Rightarrow> int" where
  "building_total df k = sum_list (map DWEL_UNITS (filter (\<lambda>r. (COLL_AREA r, BL_ID r) = k) df))"

definition included_buildings :: "df_row list \<Rightarrow> (string \<times> int) list" where
  "included_buildings df =
     filter (\<lambda>k. building_total df k \<le> 6) (sort (remdups (map (\<lambda>r. (COLL_AREA r, BL_ID r)) df)))"

definition report_le6 :: "df_row list \<Rightarrow> final_row list" where
  "report_le6 df =
     map (\<lambda>a. (a,
               sum_list (map (building_total df) (filter (\<lambda>k. fst k = a) (included_buildings df))),
               int (length (filter (\<lambda>k. fst k = a) (included_buildings df)))))
         (sort (remdups (map fst (included_buildings df))))"

section \<open>Properties of the aggregation\<close>

lemma sort_remdups_set: "set xs = set ys \<Longrightarrow> sort (remdups xs) = sort (remdups ys)"
  by (metis sorted_list_of_set_sort_remdups)

lemma groupby_agg_keys: "map fst (groupby_agg key agg rows) = sort (remdups (map key rows))"
  by (simp add: groupby_agg_def comp_def)

lemma groupby_agg_distinct: "distinct (map fst (groupby_agg key agg rows))"
  by (simp add: groupby_agg_keys)

lemma groupby_agg_sorted: "sorted (map fst (groupby_agg key agg rows))"
  by (simp add: groupby_agg_keys)

lemma groupby_agg_key_set: "set (map fst (groupby_agg key agg rows)) = key ` set rows"
  by (simp add: groupby_agg_keys)

lemma map_of_groupby_agg:
  "map_of (groupby_agg key agg rows) k =
     (if k \<in> key ` set rows then Some (agg (filter (\<lambda>r. key r = k) rows)) else None)"
proof -
  have "map_of (map (\<lambda>k. (k, agg (filter (\<lambda>r. key r = k) rows))) ks) k =
        (if k \<in> set ks then Some (agg (filter (\<lambda>r. key r = k) rows)) else None)" for ks
    by (induction ks) auto
  then show ?thesis by (simp add: groupby_agg_def)
qed

lemma sum_list_delta:
  "distinct ks \<Longrightarrow> sum_list (map (\<lambda>k. if x = k then (c::int) else 0) ks) = (if x \<in> set ks then c else 0)"
  by (induction ks) auto

lemma partition_sum:
  fixes f :: "'r \<Rightarrow> int"
  assumes "distinct ks" and "key ` set rows \<subseteq> set ks"
  shows "sum_list (map (\<lambda>k. sum_list (map f (filter (\<lambda>r. key r = k) rows))) ks) = sum_list (map f rows)"
  using assms(2)
proof (induction rows)
  case Nil
  then show ?case by simp
next
  case (Cons r rs)
  have "sum_list (map (\<lambda>k. sum_list (map f (filter (\<lambda>r. key r = k) (r # rs)))) ks)
      = sum_list (map (\<lambda>k. (if key r = k then f r else 0) + sum_list (map f (filter (\<lambda>r. key r = k) rs))) ks)"
    by (rule arg_cong [where f = sum_list], rule map_cong) auto
  also have "\<dots> = sum_list (map (\<lambda>k. if key r = k then f r else 0) ks)
                 + sum_list (map (\<lambda>k. sum_list (map f (filter (\<lambda>r. key r = k) rs))) ks)"
    by (simp add: sum_list_addf)
  also have "\<dots> = f r + sum_list (map f rs)"
    using Cons assms(1) by (simp add: sum_list_delta)
  finally show ?case by simp
qed


lemma summary_keys:
  "set (map fst (df_summary_one df)) = (\<lambda>r. (COLL_AREA r, BL_ID r)) ` set (query_le6 df)"
  by (simp only: df_summary_one_def groupby_agg_key_set)

lemma map_of_df_summary_one:
  "map_of (df_summary_one df) k =
     (if k \<in> (\<lambda>r. (COLL_AREA r, BL_ID r)) ` set (query_le6 df)
      then Some (sum_list (map DWEL_UNITS (filter (\<lambda>r. (COLL_AREA r, BL_ID r) = k) (query_le6 df))),
                 int (length (filter (\<lambda>r. (COLL_AREA r, BL_ID r) = k) (query_le6 df))))
      else None)"
  by (simp add: df_summary_one_def map_of_groupby_agg agg_sum_count_def)

lemma area_group:
  fixes q :: "df_row list"
  defines "key \<equiv> (\<lambda>r. (COLL_AREA r, BL_ID r))"
  defines "s1 \<equiv> groupby_agg key agg_sum_count q"
  shows "agg_sum_count2 (filter (\<lambda>s. fst (fst s) = a) s1) =
         (sum_list (map DWEL_UNITS (filter (\<lambda>r. COLL_AREA r = a) q)),
          int (card (BL_ID ` {r \<in> set q. COLL_AREA r = a})))"
proof -
  define keys where "keys = sort (remdups (map key q))"
  define ka where "ka = filter (\<lambda>k. fst k = a) keys"
  define g where "g = (\<lambda>k. (k, agg_sum_count (filter (\<lambda>r. key r = k) q)))"
  have s1: "s1 = map g keys"
    by (simp add: s1_def groupby_agg_def keys_def g_def)
  have fl: "filter (\<lambda>s. fst (fst s) = a) s1 = map g ka"
    by (simp add: s1 filter_map comp_def g_def ka_def)
  have dka: "distinct ka" by (simp add: ka_def keys_def)
  have ska: "set ka = {k \<in> key ` set q. fst k = a}"
    by (auto simp: ka_def keys_def)
  let ?qa = "filter (\<lambda>r. COLL_AREA r = a) q"
  have same: "filter (\<lambda>r. key r = k) q = filter (\<lambda>r. key r = k) ?qa" if "k \<in> set ka" for k
  proof -
    from that have "fst k = a" by (simp add: ska)
    then show ?thesis by (auto simp: key_def intro!: filter_cong)
  qed
  have "sum_list (map (\<lambda>s. fst (snd s)) (map g ka))
      = sum_list (map (\<lambda>k. sum_list (map DWEL_UNITS (filter (\<lambda>r. key r = k) q))) ka)"
    by (simp add: comp_def g_def agg_sum_count_def)
  also have "\<dots> = sum_list (map (\<lambda>k. sum_list (map DWEL_UNITS (filter (\<lambda>r. key r = k) ?qa))) ka)"
    by (rule arg_cong [where f = sum_list], rule map_cong) (simp_all add: same)
  also have "\<dots> = sum_list (map DWEL_UNITS ?qa)"
    by (rule partition_sum [OF dka]) (auto simp: ska key_def)
  finally have units: "sum_list (map (\<lambda>s. fst (snd s)) (map g ka)) = sum_list (map DWEL_UNITS ?qa)" .
  have "set ka = (\<lambda>b. (a, b)) ` (BL_ID ` {r \<in> set q. COLL_AREA r = a})"
    unfolding ska key_def by (safe; force)
  then have "card (set ka) = card (BL_ID ` {r \<in> set q. COLL_AREA r = a})"
    by (simp add: card_image inj_on_def)
  then have cnt: "length (map g ka) = card (BL_ID ` {r \<in> set q. COLL_AREA r = a})"
    using dka by (simp add: distinct_card)
  show ?thesis
    unfolding fl agg_sum_count2_def using units cnt by simp
qed

lemma area_labels:
  "set (map fst (df_by_area (df_summary_one df))) = COLL_AREA ` set (query_le6 df)"
proof -
  have "set (map fst (df_by_area (df_summary_one df))) = (\<lambda>s. fst (fst s)) ` set (df_summary_one df)"
    by (simp only: df_by_area_def groupby_agg_key_set)
  also have "\<dots> = fst ` set (map fst (df_summary_one df))"
    by (simp add: image_image)
  also have "\<dots> = COLL_AREA ` set (query_le6 df)"
    by (simp only: summary_keys) (simp add: image_image)
  finally show ?thesis .
qed

lemma map_of_df_by_area:
  "map_of (df_by_area (df_summary_one df)) a =
     (if a \<in> COLL_AREA ` set (query_le6 df)
      then Some (sum_list (map DWEL_UNITS (filter (\<lambda>r. COLL_AREA r = a) (query_le6 df))),
                 int (card (BL_ID ` {r \<in> set (query_le6 df). COLL_AREA r = a})))
      else None)"
proof -
  have "(\<lambda>s. fst (fst s)) ` set (df_summary_one df) = COLL_AREA ` set (query_le6 df)"
    using area_labels [of df] by (simp only: df_by_area_def groupby_agg_key_set)
  then show ?thesis
    by (simp add: df_by_area_def map_of_groupby_agg)
       (simp add: df_summary_one_def area_group)
qed

lemma column_sums_by_area:
  "column_sums (df_by_area s1) = (sum_list (map (\<lambda>s. fst (snd s)) s1), int (length s1))"
proof -
  let ?ks = "sort (remdups (map (\<lambda>s. fst (fst s)) s1))"
  have d: "distinct ?ks" by simp
  have c: "(\<lambda>s. fst (fst s)) ` set s1 \<subseteq> set ?ks" by simp
  have u: "sum_list (map (\<lambda>r. fst (snd r)) (df_by_area s1)) = sum_list (map (\<lambda>s. fst (snd s)) s1)"
    using partition_sum [OF d c, of "\<lambda>s. fst (snd s)"]
    by (simp add: df_by_area_def groupby_agg_def agg_sum_count2_def comp_def)
  have "sum_list (map (\<lambda>r. snd (snd r)) (df_by_area s1)) = sum_list (map (\<lambda>s. 1) s1)"
    using partition_sum [OF d c, of "\<lambda>s. 1"]
    by (simp add: df_by_area_def groupby_agg_def agg_sum_count2_def comp_def sum_list_triv)
  then have n: "sum_list (map (\<lambda>r. snd (snd r)) (df_by_area s1)) = int (length s1)"
    by (simp add: sum_list_triv)
  show ?thesis by (simp add: column_sums_def u n)
qed

lemma summary_units_total:
  "sum_list (map (\<lambda>s. fst (snd s)) (df_summary_one df)) = sum_list (map DWEL_UNITS (query_le6 df))"
proof -
  let ?key = "\<lambda>r::df_row. (COLL_AREA r, BL_ID r)"
  let ?ks = "sort (remdups (map ?key (query_le6 df)))"
  have d: "distinct ?ks" by simp
  have c: "?key ` set (query_le6 df) \<subseteq> set ?ks" by simp
  show ?thesis
    using partition_sum [OF d c, of DWEL_UNITS]
    by (simp add: df_summary_one_def groupby_agg_def agg_sum_count_def comp_def)
qed


lemma column_sums_rename: "column_sums (rename_index f) = column_sums f"
  by (simp add: column_sums_def rename_index_def comp_def)

lemma df_final_append:
  assumes "''TOTAL'' \<notin> fst ` set (df_by_area s1)"
  shows "df_final s1 = rename_index (df_by_area s1) @ [(''TOTAL'', column_sums (df_by_area s1))]"
  using assms by (simp add: df_final_def Let_def loc_set_def rename_index_def)


lemma filter_empty_not_key: "k \<notin> key ` set q \<Longrightarrow> filter (\<lambda>r. key r = k) q = []"
  by (auto simp: filter_empty_conv)

lemma units_of_summary:
  "units_of (df_summary_one df) k =
     sum_list (map DWEL_UNITS (filter (\<lambda>r. (COLL_AREA r, BL_ID r) = k) (query_le6 df)))"
proof (cases "k \<in> (\<lambda>r. (COLL_AREA r, BL_ID r)) ` set (query_le6 df)")
  case True
  then show ?thesis by (simp add: units_of_def map_of_df_summary_one)
next
  case False
  then have "filter (\<lambda>r. (COLL_AREA r, BL_ID r) = k) (query_le6 df) = []"
    by (rule filter_empty_not_key)
  with False show ?thesis by (simp add: units_of_def map_of_df_summary_one)
qed

lemma units_of_area:
  "units_of (df_by_area (df_summary_one df)) l =
     sum_list (map DWEL_UNITS (filter (\<lambda>r. COLL_AREA r = l) (query_le6 df)))"
proof (cases "l \<in> COLL_AREA ` set (query_le6 df)")
  case True
  then show ?thesis by (simp add: units_of_def map_of_df_by_area)
next
  case False
  then have "filter (\<lambda>r. COLL_AREA r = l) (query_le6 df) = []"
    by (rule filter_empty_not_key)
  with False show ?thesis by (simp add: units_of_def map_of_df_by_area)
qed

lemma count_of_area:
  "count_of (df_by_area (df_summary_one df)) l =
     int (card (BL_ID ` {r \<in> set (query_le6 df). COLL_AREA r = l}))"
proof (cases "l \<in> COLL_AREA ` set (query_le6 df)")
  case True
  then show ?thesis by (simp add: count_of_def map_of_df_by_area)
next
  case False
  then have "{r \<in> set (query_le6 df). COLL_AREA r = l} = {}" by auto
  with False show ?thesis by (simp add: count_of_def map_of_df_by_area)
qed

lemma query_null_row:
  "query_le6 (FeatureClassToNumPyArray (xs @ (b, a, None) # ys)) =
     query_le6 (FeatureClassToNumPyArray xs) @ (b, a, 0) # query_le6 (FeatureClassToNumPyArray ys)"
  by (simp add: query_le6_def FeatureClassToNumPyArray_def null_value_def
                BL_ID_def COLL_AREA_def DWEL_UNITS_def)

lemma query_append:
  "query_le6 (FeatureClassToNumPyArray (xs @ ys)) =
     query_le6 (FeatureClassToNumPyArray xs) @ query_le6 (FeatureClassToNumPyArray ys)"
  by (simp add: query_le6_def FeatureClassToNumPyArray_def)

lemma filter_key_single:
  "distinct (map f xs) \<Longrightarrow> x \<in> set xs \<Longrightarrow> filter (\<lambda>y. f y = f x) xs = [x]"
proof (induction xs)
  case Nil
  then show ?case by simp
next
  case (Cons y ys)
  show ?case
  proof (cases "x = y")
    case True
    have "filter (\<lambda>z. f z = f y) ys = []"
      using Cons.prems(1) by (auto simp: filter_empty_conv image_iff)
    with True show ?thesis by simp
  next
    case False
    with Cons.prems have x: "x \<in> set ys" and "f y \<noteq> f x" by (auto simp: image_iff)
    with Cons show ?thesis by simp
  qed
qed

lemma total_single:
  assumes "distinct (map (\<lambda>r. (COLL_AREA r, BL_ID r)) df)" and "r \<in> set df"
  shows "building_total df (COLL_AREA r, BL_ID r) = DWEL_UNITS r"
  using filter_key_single [OF assms] by (simp add: building_total_def)

lemma retained_group:
  assumes "distinct (map (\<lambda>r. (COLL_AREA r, BL_ID r)) df)"
    and "k \<in> (\<lambda>r. (COLL_AREA r, BL_ID r)) ` set (query_le6 df)"
  shows "sum_list (map DWEL_UNITS (filter (\<lambda>r. (COLL_AREA r, BL_ID r) = k) (query_le6 df)))
           = building_total df k"
proof -
  from assms(2) obtain r where r: "r \<in> set df" "DWEL_UNITS r \<le> 6" "k = (COLL_AREA r, BL_ID r)"
    by (auto simp: query_le6_def)
  have "filter (\<lambda>y. (COLL_AREA y, BL_ID y) = k) df = [r]"
    unfolding r(3) using assms(1) r(1) by (rule filter_key_single)
  moreover have "filter (\<lambda>y. (COLL_AREA y, BL_ID y) = k) (query_le6 df)
               = filter (\<lambda>y. DWEL_UNITS y \<le> 6) (filter (\<lambda>y. (COLL_AREA y, BL_ID y) = k) df)"
    by (auto simp: query_le6_def intro: filter_cong)
  ultimately show ?thesis using r(2) by (simp add: building_total_def)
qed

lemma included_eq_keys:
  assumes "distinct (map (\<lambda>r. (COLL_AREA r, BL_ID r)) df)"
  shows "included_buildings df = map fst (df_summary_one df)"
proof -
  let ?key = "\<lambda>r::df_row. (COLL_AREA r, BL_ID r)"
  have "filter (\<lambda>k. building_total df k \<le> 6) (map ?key df) = map ?key (query_le6 df)"
    unfolding filter_map query_le6_def comp_def
    by (rule arg_cong [where f = "map ?key"], rule filter_cong)
       (simp_all add: total_single [OF assms])
  then have "filter (\<lambda>k. building_total df k \<le> 6) (sort (remdups (map ?key df)))
           = sort (remdups (map ?key (query_le6 df)))"
    unfolding filter_sort remdups_filter [symmetric] by (rule arg_cong)
  then show ?thesis
    by (simp add: included_buildings_def df_summary_one_def groupby_agg_keys)
qed

lemma report_refines:
  assumes "distinct (map (\<lambda>r. (COLL_AREA r, BL_ID r)) df)"
  shows "df_by_area (df_summary_one df) = report_le6 df"
proof -
  let ?key = "\<lambda>r::df_row. (COLL_AREA r, BL_ID r)"
  let ?q = "query_le6 df"
  let ?K = "sort (remdups (map ?key ?q))"
  let ?g = "\<lambda>k. (k, agg_sum_count (filter (\<lambda>r. ?key r = k) ?q))"
  have s1: "df_summary_one df = map ?g ?K"
    by (simp add: df_summary_one_def groupby_agg_def)
  have inc: "included_buildings df = ?K"
    using included_eq_keys [OF assms] by (simp add: s1 comp_def)
  have agg: "agg_sum_count2 (filter (\<lambda>s. fst (fst s) = a) (map ?g ?K))
           = (sum_list (map (building_total df) (filter (\<lambda>k. fst k = a) ?K)),
              int (length (filter (\<lambda>k. fst k = a) ?K)))" for a
  proof -
    have f: "filter (\<lambda>s. fst (fst s) = a) (map ?g ?K) = map ?g (filter (\<lambda>k. fst k = a) ?K)"
      by (simp add: filter_map comp_def)
    have k: "fst (snd (?g k)) = building_total df k" if "k \<in> set (filter (\<lambda>k. fst k = a) ?K)" for k
    proof -
      from that have "k \<in> ?key ` set ?q" by simp
      from retained_group [OF assms this] show ?thesis by (simp add: agg_sum_count_def)
    qed
    have "map (\<lambda>k. fst (snd (?g k))) (filter (\<lambda>k. fst k = a) ?K)
        = map (building_total df) (filter (\<lambda>k. fst k = a) ?K)"
      using k by (intro map_cong refl)
    then have e: "map (\<lambda>s. fst (snd s)) (map ?g (filter (\<lambda>k. fst k = a) ?K))
        = map (building_total df) (filter (\<lambda>k. fst k = a) ?K)"
      by (simp add: comp_def)
    show ?thesis unfolding f agg_sum_count2_def e length_map by (rule refl)
  qed
  show ?thesis
    unfolding report_le6_def inc
    by (simp add: df_by_area_def groupby_agg_def s1 comp_def agg)
qed

lemma keys_of_array:
  "map (\<lambda>r. (COLL_AREA r, BL_ID r)) (FeatureClassToNumPyArray tbl)
     = map (\<lambda>r. (COLL_AREA r, BL_ID r)) tbl"
  by (simp add: FeatureClassToNumPyArray_def COLL_AREA_def BL_ID_def comp_def)

lemma distinct_keys_of_ids:
  "distinct (map BL_ID tbl) \<Longrightarrow> distinct (map (\<lambda>r. (COLL_AREA r, BL_ID r)) tbl)"
proof (induction tbl)
  case Nil
  then show ?case by simp
next
  case (Cons r tbl)
  then show ?case by (auto simp: image_iff)
qed

section \<open>Properties of runs\<close>

lemma and_then_Inr: "m s = (Inr a, s') \<Longrightarrow> and_then m f s = f a s'"
  by (simp add: and_then_def)

lemma and_then_Inl: "m s = (Inl e, s') \<Longrightarrow> and_then m f s = (Inl e, s')"
  by (simp add: and_then_def)

lemma inside_self [simp]: "inside g g"
  by (simp add: inside_def)

lemma inside_join [simp]: "inside g (os_path_join g name)"
  by (simp add: inside_def os_path_join_def)

lemma inside_join2 [simp]: "inside g (os_path_join (os_path_join g a) b)"
  by (simp add: inside_def os_path_join_def)

lemma inside_trans: "inside g p \<Longrightarrow> inside p q \<Longrightarrow> inside g q"
  unfolding inside_def by (metis append_take_drop_id append_eq_conv_conj append_assoc)

lemma effect_refl: "effect env names lvls k k s s"
  by (simp add: effect_def)

lemma effect_trans:
  assumes "effect env names lvls lo mid s s'" and "effect env names lvls mid hi s' s''" and "lo \<le> mid" "mid \<le> hi"
  shows "effect env names lvls lo hi s s''"
proof -
  from assms(1) have st1: "\<forall>p. \<not> inside (working_gdb env) p \<longrightarrow> store s' p = store s p"
    unfolding effect_def by (elim conjE)
  from assms(1) have exT1: "\<exists>T. trace s' = trace s @ T
            \<and> list_all (\<lambda>t. reads_ok env t \<and> writes_ok env t \<and> lo \<le> rank (fst t) \<and> rank (fst t) < mid) T
            \<and> sorted_wrt (<) (map (\<lambda>t. rank (fst t)) T)"
    unfolding effect_def by (elim conjE)
  from assms(1) have exL1: "\<exists>L. logfile s' = logfile s @ L \<and> fst ` set L \<subseteq> lvls"
    unfolding effect_def by (elim conjE)
  from assms(1) have exF1: "\<exists>F. files s' = files s @ F \<and> fst ` set F \<subseteq> names"
    unfolding effect_def by (elim conjE)
  from exT1 obtain T where
    T: "trace s' = trace s @ T"
       "list_all (\<lambda>t. reads_ok env t \<and> writes_ok env t \<and> lo \<le> rank (fst t) \<and> rank (fst t) < mid) T"
       "sorted_wrt (<) (map (\<lambda>t. rank (fst t)) T)"
    by (elim exE conjE)
  from exL1 obtain L where
    L: "logfile s' = logfile s @ L" "fst ` set L \<subseteq> lvls"
    by (elim exE conjE)
  from exF1 obtain F where
    F: "files s' = files s @ F" "fst ` set F \<subseteq> names"
    by (elim exE conjE)
  from assms(2) have st2: "\<forall>p. \<not> inside (working_gdb env) p \<longrightarrow> store s'' p = store s' p"
    unfolding effect_def by (elim conjE)
  from assms(2) have exT2: "\<exists>T. trace s'' = trace s' @ T
            \<and> list_all (\<lambda>t. reads_ok env t \<and> writes_ok env t \<and> mid \<le> rank (fst t) \<and> rank (fst t) < hi) T
            \<and> sorted_wrt (<) (map (\<lambda>t. rank (fst t)) T)"
    unfolding effect_def by (elim conjE)
  from assms(2) have exL2: "\<exists>L. logfile s'' = logfile s' @ L \<and> fst ` set L \<subseteq> lvls"
    unfolding effect_def by (elim conjE)
  from assms(2) have exF2: "\<exists>F. files s'' = files s' @ F \<and> fst ` set F \<subseteq> names"
    unfolding effect_def by (elim conjE)
  from exT2 obtain T' where
    T': "trace s'' = trace s' @ T'"
       "list_all (\<lambda>t. reads_ok env t \<and> writes_ok env t \<and> mid \<le> rank (fst t) \<and> rank (fst t) < hi) T'"
       "sorted_wrt (<) (map (\<lambda>t. rank (fst t)) T')"
    by (elim exE conjE)
  from exL2 obtain L' where
    L': "logfile s'' = logfile s' @ L'" "fst ` set L' \<subseteq> lvls"
    by (elim exE conjE)
  from exF2 obtain F' where
    F': "files s'' = files s' @ F'" "fst ` set F' \<subseteq> names"
    by (elim exE conjE)
  have a: "\<forall>p. \<not> inside (working_gdb env) p \<longrightarrow> store s'' p = store s p"
    using st1 st2 by simp
  have b1: "trace s'' = trace s @ (T @ T')" using T(1) T'(1) by simp
  have b2: "list_all (\<lambda>t. reads_ok env t \<and> writes_ok env t \<and> lo \<le> rank (fst t) \<and> rank (fst t) < hi) (T @ T')"
    using T(2) T'(2) assms(3,4) by (auto simp: list_all_iff)
  have b3: "sorted_wrt (<) (map (\<lambda>t. rank (fst t)) (T @ T'))"
  proof -
    have "rank (fst t) < rank (fst t')" if "t \<in> set T" "t' \<in> set T'" for t t'
    proof -
      from that T(2) have "rank (fst t) < mid" by (simp add: list_all_iff)
      moreover from that T'(2) have "mid \<le> rank (fst t')" by (simp add: list_all_iff)
      ultimately show ?thesis by simp
    qed
    then show ?thesis using T(3) T'(3) by (auto simp: sorted_wrt_append)
  qed
  have c: "logfile s'' = logfile s @ (L @ L')" "fst ` set (L @ L') \<subseteq> lvls"
    using L L' by auto
  have d: "files s'' = files s @ (F @ F')" "fst ` set (F @ F') \<subseteq> names"
    using F F' by auto
  show ?thesis
    unfolding effect_def
  proof (intro conjI)
    show "\<forall>p. \<not> inside (working_gdb env) p \<longrightarrow> store s'' p = store s p" by (rule a)
    show "\<exists>T. trace s'' = trace s @ T
            \<and> list_all (\<lambda>t. reads_ok env t \<and> writes_ok env t \<and> lo \<le> rank (fst t) \<and> rank (fst t) < hi) T
            \<and> sorted_wrt (<) (map (\<lambda>t. rank (fst t)) T)"
      by (intro exI [of _ "T @ T'"] conjI b1 b2 b3)
    show "\<exists>L. logfile s'' = logfile s @ L \<and> fst ` set L \<subseteq> lvls"
      by (intro exI [of _ "L @ L'"] conjI c)
    show "\<exists>F. files s'' = files s @ F \<and> fst ` set F \<subseteq> names"
      by (intro exI [of _ "F @ F'"] conjI d)
  qed
qed

lemma effect_weaken:
  assumes "effect env names lvls lo hi s s'"
    and "lo' \<le> lo" and "hi \<le> hi'" and "names \<subseteq> names'" and "lvls \<subseteq> lvls'"
  shows "effect env names' lvls' lo' hi' s s'"
proof -
  from assms(1) have st1: "\<forall>p. \<not> inside (working_gdb env) p \<longrightarrow> store s' p = store s p"
    unfolding effect_def by (elim conjE)
  from assms(1) have exT1: "\<exists>T. trace s' = trace s @ T
            \<and> list_all (\<lambda>t. reads_ok env t \<and> writes_ok env t \<and> lo \<le> rank (fst t) \<and> rank (fst t) < hi) T
            \<and> sorted_wrt (<) (map (\<lambda>t. rank (fst t)) T)"
    unfolding effect_def by (elim conjE)
  from assms(1) have exL1: "\<exists>L. logfile s' = logfile s @ L \<and> fst ` set L \<subseteq> lvls"
    unfolding effect_def by (elim conjE)
  from assms(1) have exF1: "\<exists>F. files s' = files s @ F \<and> fst ` set F \<subseteq> names"
    unfolding effect_def by (elim conjE)
  from exT1 obtain T where
    T: "trace s' = trace s @ T"
       "list_all (\<lambda>t. reads_ok env t \<and> writes_ok env t \<and> lo \<le> rank (fst t) \<and> rank (fst t) < hi) T"
       "sorted_wrt (<) (map (\<lambda>t. rank (fst t)) T)"
    by (elim exE conjE)
  from exL1 obtain L where
    L: "logfile s' = logfile s @ L" "fst ` set L \<subseteq> lvls"
    by (elim exE conjE)
  from exF1 obtain F where
    F: "files s' = files s @ F" "fst ` set F \<subseteq> names"
    by (elim exE conjE)
  have T2: "list_all (\<lambda>t. reads_ok env t \<and> writes_ok env t \<and> lo' \<le> rank (fst t) \<and> rank (fst t) < hi') T"
    using T(2) assms(2,3) unfolding list_all_iff by (auto intro: order_trans less_le_trans)
  have L2: "fst ` set L \<subseteq> lvls'" using L(2) assms(5) by blast
  have F2: "fst ` set F \<subseteq> names'" using F(2) assms(4) by blast
  show ?thesis
    unfolding effect_def
  proof (intro conjI)
    show "\<forall>p. \<not> inside (working_gdb env) p \<longrightarrow> store s' p = store s p" by (rule st1)
    show "\<exists>T. trace s' = trace s @ T
            \<and> list_all (\<lambda>t. reads_ok env t \<and> writes_ok env t \<and> lo' \<le> rank (fst t) \<and> rank (fst t) < hi') T
            \<and> sorted_wrt (<) (map (\<lambda>t. rank (fst t)) T)"
      by (intro exI [of _ T] conjI T(1) T2 T(3))
    show "\<exists>L. logfile s' = logfile s @ L \<and> fst ` set L \<subseteq> lvls'"
      by (intro exI [of _ L] conjI L(1) L2)
    show "\<exists>F. files s' = files s @ F \<and> fst ` set F \<subseteq> names'"
      by (intro exI [of _ F] conjI F(1) F2)
  qed
qed

lemma sat_and_then:
  assumes m: "sat (effect env names lvls lo mid) Q m"
    and f: "\<And>a. Q a \<Longrightarrow> sat (effect env names lvls mid hi) Q' (f a)"
    and le: "lo \<le> mid" "mid \<le> hi"
  shows "sat (effect env names lvls lo hi) Q' (and_then m f)"
  unfolding sat_def
proof (intro allI conjI impI)
  fix s
  obtain r s' where ms: "m s = (r, s')" by (cases "m s")
  from m have e1: "effect env names lvls lo mid s s'" and q: "\<And>a. r = Inr a \<Longrightarrow> Q a"
    using ms unfolding sat_def by (metis snd_conv, metis fst_conv)
  show "effect env names lvls lo hi s (snd (and_then m f s))"
  proof (cases r)
    case (Inl e)
    then have "and_then m f s = (Inl e, s')" using ms by (simp add: and_then_def)
    moreover have "effect env names lvls lo hi s s'"
      by (rule effect_weaken [OF e1]) (use le in simp_all)
    ultimately show ?thesis by simp
  next
    case (Inr a)
    then have eq: "and_then m f s = f a s'" using ms by (simp add: and_then_def)
    from f [OF q [OF Inr]] have "effect env names lvls mid hi s' (snd (f a s'))"
      unfolding sat_def by blast
    with e1 le show ?thesis unfolding eq by (blast intro: effect_trans)
  qed
  fix b assume b: "fst (and_then m f s) = Inr b"
  show "Q' b"
  proof (cases r)
    case (Inl e)
    then have "and_then m f s = (Inl e, s')" using ms by (simp add: and_then_def)
    with b show ?thesis by simp
  next
    case (Inr a)
    then have eq: "and_then m f s = f a s'" using ms by (simp add: and_then_def)
    from f [OF q [OF Inr]] b show ?thesis unfolding sat_def eq by blast
  qed
qed

lemma sat_try_except:
  assumes m: "sat (effect env names lvls lo mid) Q m"
    and h: "\<And>e. sat (effect env names lvls mid hi) Q (h e)"
    and le: "lo \<le> mid" "mid \<le> hi"
  shows "sat (effect env names lvls lo hi) Q (try_except m h)"
  unfolding sat_def
proof (intro allI conjI impI)
  fix s
  obtain r s' where ms: "m s = (r, s')" by (cases "m s")
  from m have e1: "effect env names lvls lo mid s s'" and q: "\<And>a. r = Inr a \<Longrightarrow> Q a"
    using ms unfolding sat_def by (metis snd_conv, metis fst_conv)
  show "effect env names lvls lo hi s (snd (try_except m h s))"
  proof (cases r)
    case (Inr a)
    then have "try_except m h s = (Inr a, s')" using ms by (simp add: try_except_def)
    moreover have "effect env names lvls lo hi s s'"
      by (rule effect_weaken [OF e1]) (use le in simp_all)
    ultimately show ?thesis by simp
  next
    case (Inl e)
    then have eq: "try_except m h s = h e s'" using ms by (simp add: try_except_def)
    from h [of e] have "effect env names lvls mid hi s' (snd (h e s'))"
      unfolding sat_def by blast
    with e1 le show ?thesis unfolding eq by (blast intro: effect_trans)
  qed
  fix b assume b: "fst (try_except m h s) = Inr b"
  show "Q b"
  proof (cases r)
    case (Inr a)
    then have "try_except m h s = (Inr a, s')" using ms by (simp add: try_except_def)
    with b q Inr show ?thesis by simp
  next
    case (Inl e)
    then have eq: "try_except m h s = h e s'" using ms by (simp add: try_except_def)
    from h [of e] b show ?thesis unfolding sat_def eq by blast
  qed
qed

lemma sat_weaken:
  assumes "sat (effect env names lvls lo hi) Q m"
    and "lo' \<le> lo" and "hi \<le> hi'" and "names \<subseteq> names'" and "lvls \<subseteq> lvls'"
    and "\<And>a. Q a \<Longrightarrow> Q' a"
  shows "sat (effect env names' lvls' lo' hi') Q' m"
  unfolding sat_def
proof (intro allI conjI impI)
  fix s
  from assms(1) have "effect env names lvls lo hi s (snd (m s))"
    unfolding sat_def by blast
  then show "effect env names' lvls' lo' hi' s (snd (m s))"
    using assms(2-5) by (rule effect_weaken)
  fix a assume "fst (m s) = Inr a"
  with assms(1) have "Q a" unfolding sat_def by blast
  then show "Q' a" by (rule assms(6))
qed

lemma sat_bounds:
  assumes "sat (effect env names lvls lo hi) Q m" and "lo' \<le> lo" and "hi \<le> hi'"
  shows "sat (effect env names lvls lo' hi') Q m"
  using assms(1,2,3) by (rule sat_weaken) simp_all

lemma sat_return: "Q a \<Longrightarrow> sat (effect env names lvls k k) Q (return a)"
  by (simp add: sat_def return_def effect_refl)

lemma sat_logger: "lvl \<in> lvls \<Longrightarrow> sat (effect env names lvls k k) (\<lambda>_. True) (logger lvl msg)"
  by (simp add: sat_def logger_def effect_def)

lemma sat_write_file: "name \<in> names \<Longrightarrow> sat (effect env names lvls k k) (\<lambda>_. True) (write_file name content)"
  by (simp add: sat_def write_file_def effect_def)

lemma sat_loc_get: "sat (effect env names lvls k k) (\<lambda>_. True) (loc_get f label)"
  by (simp add: sat_def loc_get_def effect_def split: option.splits)

lemma sat_geoprocess0:
  assumes "inside (working_gdb env) out" and "reads_ok env (c, ins, [out])"
  shows "sat (effect env names lvls (rank c) (Suc (rank c))) (\<lambda>r. r = out) (geoprocess env c ins out tool)"
  using assms
  by (auto simp: sat_def geoprocess_def effect_def Let_def writes_ok_def split: option.splits)

lemma sat_geoprocess:
  assumes "inside (working_gdb env) out" and "reads_ok env (c, ins, [out])"
    and "lo \<le> rank c" and "rank c < hi"
  shows "sat (effect env names lvls lo hi) (\<lambda>r. r = out) (geoprocess env c ins out tool)"
  by (rule sat_bounds [OF sat_geoprocess0 [OF assms(1,2)]]) (use assms(3,4) in simp_all)

lemma sat_CreateFileGDB0:
  "sat (effect env names lvls 0 (Suc 0)) (\<lambda>r. r = working_gdb env)
     (CreateFileGDB_management env (SCRIPT_DIR env) ''temp_workspace.gdb'')"
  by (auto simp: sat_def CreateFileGDB_management_def effect_def Let_def writes_ok_def reads_ok_def
                 working_gdb_def split: option.splits)

lemma sat_CreateFileGDB:
  assumes "0 < hi"
  shows "sat (effect env names lvls 0 hi) (\<lambda>r. r = working_gdb env)
     (CreateFileGDB_management env (SCRIPT_DIR env) ''temp_workspace.gdb'')"
  by (rule sat_bounds [OF sat_CreateFileGDB0]) (use assms in simp_all)

lemma sat_GetCount0:
  assumes "inside (working_gdb env) p"
  shows "sat (effect env names lvls 8 9) (\<lambda>_. True) (GetCount_management env p)"
  using assms
  by (auto simp: sat_def GetCount_management_def effect_def Let_def writes_ok_def reads_ok_def
           split: option.splits)

lemma sat_GetCount:
  assumes "inside (working_gdb env) p" and "lo \<le> 8" and "8 < hi"
  shows "sat (effect env names lvls lo hi) (\<lambda>_. True) (GetCount_management env p)"
  by (rule sat_bounds [OF sat_GetCount0 [OF assms(1)]]) (use assms(2,3) in simp_all)

lemma sat_ToNumPyArray0:
  assumes "inside (working_gdb env) p"
  shows "sat (effect env names lvls 9 10) (\<lambda>_. True) (da_FeatureClassToNumPyArray env p)"
  using assms
  by (auto simp: sat_def da_FeatureClassToNumPyArray_def effect_def Let_def writes_ok_def reads_ok_def
           split: option.splits)

lemma sat_ToNumPyArray:
  assumes "inside (working_gdb env) p" and "lo \<le> 9" and "9 < hi"
  shows "sat (effect env names lvls lo hi) (\<lambda>_. True) (da_FeatureClassToNumPyArray env p)"
  by (rule sat_bounds [OF sat_ToNumPyArray0 [OF assms(1)]]) (use assms(2,3) in simp_all)

lemma sat_seq:
  assumes "lo \<le> mid" "mid \<le> hi"
    and "sat (effect env names lvls lo mid) Q m"
    and "\<And>a. Q a \<Longrightarrow> sat (effect env names lvls mid hi) Q' (f a)"
  shows "sat (effect env names lvls lo hi) Q' (and_then m f)"
  using assms(3,4,1,2) by (rule sat_and_then)

lemma sat_if:
  "sat R Q m \<Longrightarrow> sat R Q m' \<Longrightarrow> sat R Q (if b then m else m')"
  by simp

lemma sat_staging:
  assumes "INFO \<in> lvls"
  shows "sat (effect env names lvls 0 4) (\<lambda>locs. locs = staged env) (staging env)"
  unfolding staging_def
  apply (rule sat_seq [where mid = 0], simp, simp, rule sat_logger, rule assms)
  apply (rule sat_seq [where mid = 1], simp, simp, rule sat_CreateFileGDB, simp)
  apply clarify
  apply (rule sat_seq [where mid = 2], simp, simp, rule sat_geoprocess, simp, simp add: reads_ok_def, simp, simp)
  apply clarify
  apply (rule sat_seq [where mid = 3], simp, simp, rule sat_geoprocess, simp, simp add: reads_ok_def, simp, simp)
  apply clarify
  apply (rule sat_seq [where mid = 4], simp, simp, rule sat_geoprocess, simp, simp add: reads_ok_def, simp, simp)
  apply clarify
  apply (rule sat_return)
  apply (simp add: staged_def)
  done

lemma sat_waste_analysis:
  assumes "{DEBUG, WARNING} \<subseteq> lvls"
    and "inside (working_gdb env) bp" "inside (working_gdb env) bu" "inside (working_gdb env) ca"
  shows "sat (effect env names lvls 4 9) (\<lambda>t. inside (working_gdb env) t)
           (waste_analysis env (working_gdb env) bp bu ca)"
  unfolding waste_analysis_def
  apply (rule sat_seq [where mid = 4], simp, simp, rule sat_logger, use assms(1) in simp)
  apply (rule sat_seq [where mid = 5], simp, simp, rule sat_geoprocess, simp, simp add: reads_ok_def assms, simp, simp)
  apply clarify
  apply (rule sat_seq [where mid = 5], simp, simp, rule sat_logger, use assms(1) in simp)
  apply (rule sat_seq [where mid = 6], simp, simp, rule sat_geoprocess, simp, simp add: reads_ok_def assms, simp, simp)
  apply clarify
  apply (rule sat_seq [where mid = 7], simp, simp, rule sat_geoprocess, simp, simp add: reads_ok_def assms, simp, simp)
  apply clarify
  apply (rule sat_seq [where mid = 8], simp, simp, rule sat_geoprocess, simp, simp add: reads_ok_def assms, simp, simp)
  apply clarify
  apply (rule sat_seq [where mid = 9], simp, simp, rule sat_GetCount, simp, simp, simp)
  apply (rule sat_seq [where mid = 9], simp, simp)
   apply (rule sat_if; rule sat_logger; use assms(1) in simp)
  apply (rule sat_return)
  apply simp
  done

lemma sat_summarize_units:
  assumes "inside (working_gdb env) p" and "csv_names \<subseteq> names"
  shows "sat (effect env names lvls 9 10) (\<lambda>_. True) (summarize_units env p)"
  unfolding summarize_units_def
  apply (rule sat_seq [where mid = 10], simp, simp, rule sat_ToNumPyArray, rule assms(1), simp, simp)
  apply (rule sat_seq [where mid = 10], simp, simp, rule sat_write_file, use assms(2) in \<open>simp add: csv_names_def\<close>)
  apply (rule sat_seq [where mid = 10], simp, simp, rule sat_write_file, use assms(2) in \<open>simp add: csv_names_def\<close>)
  apply (rule sat_seq [where mid = 10], simp, simp, rule sat_write_file, use assms(2) in \<open>simp add: csv_names_def\<close>)
  apply (rule sat_return)
  apply simp
  done

lemma sat_aggregation:
  assumes "{DEBUG, WARNING} \<subseteq> lvls" and "csv_names \<subseteq> names"
  shows "sat (effect env names lvls 4 10) (\<lambda>_. True) (aggregation env (staged env))"
  unfolding aggregation_def staged_def prod.case
  apply (rule sat_seq [where mid = 9], simp, simp, rule sat_waste_analysis, rule assms(1), simp, simp, simp)
  apply (rule sat_seq [where mid = 9], simp, simp, rule sat_logger, use assms(1) in simp)
  apply (rule sat_summarize_units, assumption, rule assms(2))
  done

lemma sat_sanity_checks:
  assumes "{DEBUG, WARNING} \<subseteq> lvls"
  shows "sat (effect env names lvls k k) (\<lambda>_. True) (sanity_checks f sm)"
  unfolding sanity_checks_def
  apply (rule sat_seq [where mid = k], simp, simp, rule sat_return [where Q = "\<lambda>_. True"], simp)
  apply (rule sat_seq [where mid = k], simp, simp, rule sat_loc_get)
  apply (rule sat_seq [where mid = k], simp, simp)
   apply (rule sat_if; rule sat_logger; use assms(1) in simp)
  apply (rule sat_if; rule sat_logger; use assms(1) in simp)
  done

lemma sat_export_to_excel:
  assumes "DEBUG \<in> lvls" and "OUTPUT_EXCEL_NAME env \<in> names"
  shows "sat (effect env names lvls k k) (\<lambda>_. True) (export_to_excel env f sm)"
  unfolding export_to_excel_def
  apply (rule sat_if)
   apply (rule sat_seq [where mid = k], simp, simp, rule sat_write_file, rule assms(2))
   apply (rule sat_logger, rule assms(1))
  apply (rule sat_return, simp)
  done

lemma sat_handler:
  assumes "ERROR \<in> lvls"
  shows "sat (effect env names lvls k k) (\<lambda>_. True) (handler e)"
  unfolding handler_def
  by (cases e) (simp_all add: sat_logger assms)

lemma sat_try_body:
  assumes "{DEBUG, WARNING} \<subseteq> lvls" and "csv_names \<subseteq> names" and "OUTPUT_EXCEL_NAME env \<in> names"
  shows "sat (effect env names lvls 4 10) (\<lambda>_. True) (try_body env (staged env))"
  unfolding try_body_def
  apply (rule sat_seq [where mid = 10], simp, simp, rule sat_aggregation, rule assms(1), rule assms(2))
  subgoal for a
    apply (cases a)
    apply (simp only: prod.case)
    apply (rule sat_seq [where mid = 10], simp, simp, rule sat_sanity_checks, rule assms(1))
    apply (rule sat_export_to_excel, use assms(1) in simp, rule assms(3))
    done
  done

lemma sat_main:
  assumes "csv_names \<subseteq> names" and "OUTPUT_EXCEL_NAME env \<in> names"
  shows "sat (effect env names UNIV 0 10) (\<lambda>_. True) (main env)"
  unfolding main_def
  apply (rule sat_seq [where mid = 4], simp, simp, rule sat_staging, simp)
  apply (erule ssubst)
  apply (rule sat_try_except [where mid = 10])
     apply (rule sat_try_body, simp, rule assms(1), rule assms(2))
    apply (rule sat_handler, simp)
   apply simp
  apply simp
  done

lemma distinct_map_rank:
  "sorted_wrt (<) (map (\<lambda>t. rank (fst t)) T) \<Longrightarrow> distinct (map fst T)"
proof (induction T)
  case Nil
  then show ?case by simp
next
  case (Cons t T)
  then show ?case by (auto simp: image_iff)
qed

lemma effect_initial:
  assumes "effect env names lvls lo hi (initial st) s'"
  shows "\<forall>p. \<not> inside (working_gdb env) p \<longrightarrow> store s' p = st p"
    and "list_all (\<lambda>t. reads_ok env t \<and> writes_ok env t) (trace s')"
    and "distinct (map fst (trace s'))"
    and "fst ` set (logfile s') \<subseteq> lvls"
    and "fst ` set (files s') \<subseteq> names"
proof -
  from assms have st1: "\<forall>p. \<not> inside (working_gdb env) p \<longrightarrow> store s' p = store (initial st) p"
    unfolding effect_def by (elim conjE)
  from assms have exT: "\<exists>T. trace s' = trace (initial st) @ T
            \<and> list_all (\<lambda>t. reads_ok env t \<and> writes_ok env t \<and> lo \<le> rank (fst t) \<and> rank (fst t) < hi) T
            \<and> sorted_wrt (<) (map (\<lambda>t. rank (fst t)) T)"
    unfolding effect_def by (elim conjE)
  from assms have exL: "\<exists>L. logfile s' = logfile (initial st) @ L \<and> fst ` set L \<subseteq> lvls"
    unfolding effect_def by (elim conjE)
  from assms have exF: "\<exists>F. files s' = files (initial st) @ F \<and> fst ` set F \<subseteq> names"
    unfolding effect_def by (elim conjE)
  show "\<forall>p. \<not> inside (working_gdb env) p \<longrightarrow> store s' p = st p"
    using st1 by (simp add: initial_def)
  from exT obtain T where T: "trace s' = trace (initial st) @ T"
      "list_all (\<lambda>t. reads_ok env t \<and> writes_ok env t \<and> lo \<le> rank (fst t) \<and> rank (fst t) < hi) T"
      "sorted_wrt (<) (map (\<lambda>t. rank (fst t)) T)"
    by (elim exE conjE)
  have tr: "trace s' = T" using T(1) by (simp add: initial_def)
  show "list_all (\<lambda>t. reads_ok env t \<and> writes_ok env t) (trace s')"
    unfolding tr using T(2) by (simp add: list_all_iff)
  show "distinct (map fst (trace s'))"
    unfolding tr using T(3) by (rule distinct_map_rank)
  from exL show "fst ` set (logfile s') \<subseteq> lvls" by (auto simp: initial_def)
  from exF show "fst ` set (files s') \<subseteq> names" by (auto simp: initial_def)
qed

lemma join_eq [simp]: "os_path_join p a = os_path_join q b \<longleftrightarrow> p = q \<and> a = b"
  by (simp add: os_path_join_def)

lemma not_inside_join:
  assumes "\<not> inside (os_path_join d x) p" and "x \<noteq> y"
  shows "\<not> inside (os_path_join d x) (os_path_join p y)"
proof
  assume "inside (os_path_join d x) (os_path_join p y)"
  then have t: "take (Suc (length d)) (p @ [y]) = d @ [x]"
    by (simp add: inside_def os_path_join_def)
  show False
  proof (cases "Suc (length d) \<le> length p")
    case True
    with t have "take (Suc (length d)) p = d @ [x]" by simp
    with assms(1) show False by (simp add: inside_def os_path_join_def)
  next
    case False
    then have "take (Suc (length d)) (p @ [y]) = p @ [y]" by simp
    with t have "p @ [y] = d @ [x]" by simp
    then have "y = x" by simp
    with assms(2) show False by simp
  qed
qed

lemma remote_not_inside:
  assumes "\<not> inside (working_gdb env) (SDE env)"
  shows "\<not> inside (working_gdb env) (BUILDING_POLYGONS_FEATURE env)"
    and "\<not> inside (working_gdb env) (BUILDING_USE_TABLE env)"
    and "\<not> inside (working_gdb env) (WASTE_COLLECTION_AREAS_FEATURE env)"
  using assms
  unfolding working_gdb_def BUILDING_POLYGONS_FEATURE_def BUILDING_USE_TABLE_def
    WASTE_COLLECTION_AREAS_FEATURE_def
  by (simp_all add: not_inside_join)

lemma and_then_InrE:
  assumes "fst (and_then m f s) = Inr b"
  obtains a where "fst (m s) = Inr a" and "and_then m f s = f a (snd (m s))"
proof (cases "m s")
  case (Pair r s')
  show ?thesis
  proof (cases r)
    case (Inl e)
    with Pair assms show ?thesis by (simp add: and_then_def)
  next
    case (Inr a)
    with Pair have "fst (m s) = Inr a" "and_then m f s = f a (snd (m s))"
      by (simp_all add: and_then_def)
    then show ?thesis by (rule that)
  qed
qed

lemma and_then_Inr_eq:
  assumes "fst (m s) = Inr a"
  shows "and_then m f s = f a (snd (m s))"
  using assms by (cases "m s") (simp add: and_then_def)

lemma and_then_Inl_eq:
  assumes "fst (m s) = Inl e"
  shows "and_then m f s = (Inl e, snd (m s))"
  using assms by (cases "m s") (simp add: and_then_def)

lemma try_except_Inr_eq:
  assumes "fst (m s) = Inr a"
  shows "try_except m h s = (Inr a, snd (m s))"
  using assms by (cases "m s") (simp add: try_except_def)

lemma try_except_Inl_eq:
  assumes "fst (m s) = Inl e"
  shows "try_except m h s = h e (snd (m s))"
  using assms by (cases "m s") (simp add: try_except_def)

lemma logger_eq: "logger lvl msg s = (Inr (), s\<lparr>logfile := logfile s @ [(lvl, msg)]\<rparr>)"
  by (simp add: logger_def)

lemma geoprocess_Inr:
  assumes "fst (geoprocess env c ins out tool s) = Inr r"
  obtains ds d where "r = out" and "fault env c = None"
    and "those (map (store s) ins) = Some ds" and "tool ds = Some d"
    and "snd (geoprocess env c ins out tool s)
           = s\<lparr>trace := trace s @ [(c, ins, [out])], store := (store s)(out \<mapsto> d)\<rparr>"
proof (cases "fault env c")
  case (Some msg)
  with assms show ?thesis by (simp add: geoprocess_def Let_def)
next
  case None
  note nf = this
  show ?thesis
  proof (cases "those (map (store s) ins)")
    case None
    with nf assms show ?thesis by (simp add: geoprocess_def Let_def)
  next
    case (Some ds)
    note ds = this
    show ?thesis
    proof (cases "tool ds")
      case None
      with nf ds assms show ?thesis by (simp add: geoprocess_def Let_def)
    next
      case (Some d)
      with nf ds assms have "r = out"
        and "snd (geoprocess env c ins out tool s)
           = s\<lparr>trace := trace s @ [(c, ins, [out])], store := (store s)(out \<mapsto> d)\<rparr>"
        by (simp_all add: geoprocess_def Let_def)
      with nf ds Some show ?thesis by (intro that [of ds d]) simp_all
    qed
  qed
qed

lemma GetCount_Inr:
  assumes "fst (GetCount_management env p s) = Inr n"
  obtains d where "fault env GetCount = None" and "store s p = Some d" and "n = int (row_count d)"
    and "snd (GetCount_management env p s) = s\<lparr>trace := trace s @ [(GetCount, [p], [])]\<rparr>"
proof (cases "fault env GetCount")
  case (Some msg)
  with assms show ?thesis by (simp add: GetCount_management_def Let_def)
next
  case None
  note nf = this
  show ?thesis
  proof (cases "store s p")
    case None
    with nf assms show ?thesis by (simp add: GetCount_management_def Let_def)
  next
    case (Some d)
    with nf assms have "n = int (row_count d)"
      and "snd (GetCount_management env p s) = s\<lparr>trace := trace s @ [(GetCount, [p], [])]\<rparr>"
      by (simp_all add: GetCount_management_def Let_def)
    with nf Some show ?thesis by (intro that [of d]) simp_all
  qed
qed

lemma ToNumPyArray_Inr:
  assumes "fst (da_FeatureClassToNumPyArray env p s) = Inr df"
  obtains d tbl where "fault env ToNumPyArray = None" and "store s p = Some d"
    and "read_fields d = Some tbl" and "df = FeatureClassToNumPyArray tbl"
    and "snd (da_FeatureClassToNumPyArray env p s) = s\<lparr>trace := trace s @ [(ToNumPyArray, [p], [])]\<rparr>"
proof (cases "fault env ToNumPyArray")
  case (Some msg)
  with assms show ?thesis by (simp add: da_FeatureClassToNumPyArray_def Let_def)
next
  case None
  note nf = this
  show ?thesis
  proof (cases "store s p")
    case None
    with nf assms show ?thesis by (simp add: da_FeatureClassToNumPyArray_def Let_def)
  next
    case (Some d)
    note d = this
    show ?thesis
    proof (cases "read_fields d")
      case None
      with nf d assms show ?thesis by (simp add: da_FeatureClassToNumPyArray_def Let_def)
    next
      case (Some tbl)
      with nf d assms have "df = FeatureClassToNumPyArray tbl"
        and "snd (da_FeatureClassToNumPyArray env p s) = s\<lparr>trace := trace s @ [(ToNumPyArray, [p], [])]\<rparr>"
        by (simp_all add: da_FeatureClassToNumPyArray_def Let_def)
      with nf d Some show ?thesis by (intro that [of d tbl]) simp_all
    qed
  qed
qed

lemma and_then_eqE:
  assumes "and_then m f s = (Inr b, s'')"
  obtains a s' where "m s = (Inr a, s')" and "f a s' = (Inr b, s'')"
  using assms by (cases "m s"; cases "fst (m s)") (auto simp: and_then_def)

lemma logger_eqE:
  assumes "logger lvl msg s = (Inr u, s')"
  obtains "s' = s\<lparr>logfile := logfile s @ [(lvl, msg)]\<rparr>"
  using assms by (auto simp: logger_def)

lemma return_eqE:
  assumes "return a s = (Inr b, s')"
  obtains "b = a" and "s' = s"
  using assms by (auto simp: return_def)

lemma write_file_eqE:
  assumes "write_file name content s = (Inr u, s')"
  obtains "s' = s\<lparr>files := files s @ [(name, content)]\<rparr>"
  using assms by (auto simp: write_file_def)

lemma geoprocess_eqE:
  assumes "geoprocess env c ins out tool s = (Inr r, s')"
  obtains ds d where "r = out" and "fault env c = None"
    and "those (map (store s) ins) = Some ds" and "tool ds = Some d"
    and "s' = s\<lparr>trace := trace s @ [(c, ins, [out])], store := (store s)(out \<mapsto> d)\<rparr>"
proof -
  from assms have f: "fst (geoprocess env c ins out tool s) = Inr r"
    and s: "snd (geoprocess env c ins out tool s) = s'" by simp_all
  from f show ?thesis
    by (rule geoprocess_Inr) (use s in \<open>auto intro: that\<close>)
qed

lemma GetCount_eqE:
  assumes "GetCount_management env p s = (Inr n, s')"
  obtains d where "fault env GetCount = None" and "store s p = Some d" and "n = int (row_count d)"
    and "s' = s\<lparr>trace := trace s @ [(GetCount, [p], [])]\<rparr>"
proof -
  from assms have f: "fst (GetCount_management env p s) = Inr n"
    and s: "snd (GetCount_management env p s) = s'" by simp_all
  from f show ?thesis
    by (rule GetCount_Inr) (use s in \<open>auto intro: that\<close>)
qed

lemma ToNumPyArray_eqE:
  assumes "da_FeatureClassToNumPyArray env p s = (Inr df, s')"
  obtains d tbl where "fault env ToNumPyArray = None" and "store s p = Some d"
    and "read_fields d = Some tbl" and "df = FeatureClassToNumPyArray tbl"
    and "s' = s\<lparr>trace := trace s @ [(ToNumPyArray, [p], [])]\<rparr>"
proof -
  from assms have f: "fst (da_FeatureClassToNumPyArray env p s) = Inr df"
    and s: "snd (da_FeatureClassToNumPyArray env p s) = s'" by simp_all
  from f show ?thesis
    by (rule ToNumPyArray_Inr) (use s in \<open>auto intro: that\<close>)
qed

lemma if_logger: "(if c then logger a m else logger b m) = logger (if c then a else b) m"
  by simp

lemma those_one: "those [x] = Some ds \<longleftrightarrow> (\<exists>a. x = Some a \<and> ds = [a])"
  by (cases x) auto

lemma those_two: "those [x, y] = Some ds \<longleftrightarrow> (\<exists>a b. x = Some a \<and> y = Some b \<and> ds = [a, b])"
  by (cases x; cases y) auto

lemma waste_analysis_eq:
  assumes "waste_analysis env ws bp bu ca s = (Inr t, s')"
  shows "\<exists>x d1 y d2 u d3 d4.
           t = os_path_join ws ''buildings_w_waste_areas_blduse''
         \<and> store s bp = Some x
         \<and> Dissolve_tool (merge_parts env) [x] = Some d1
         \<and> ((store s)(os_path_join ws ''dissolved_building_polygons'' \<mapsto> d1)) ca = Some y
         \<and> SpatialJoin_tool (intersects env) [d1, y] = Some d2
         \<and> ((store s)(os_path_join ws ''dissolved_building_polygons'' \<mapsto> d1,
                        os_path_join ws ''buildings_w_waste_areas'' \<mapsto> d2)) bu = Some u
         \<and> JoinField_tool [d2, u] = Some d3
         \<and> Export_tool [d3] = Some d4
         \<and> store s' = (store s)(os_path_join ws ''dissolved_building_polygons'' \<mapsto> d1,
                                  os_path_join ws ''buildings_w_waste_areas'' \<mapsto> d3,
                                  os_path_join ws ''buildings_w_waste_areas_blduse'' \<mapsto> d4)
         \<and> logfile s' = logfile s @
              [(DEBUG, [Str (CHR 0x0A # ''Dissolving Building Polygons...'')]),
               (DEBUG, [Str (CHR 0x0A # ''Spatially Joining Building Polygons and Waste Collection Areas...'')]),
               (if int (row_count d4) < 100000 then WARNING else DEBUG,
                joined_records_msg (int (row_count d4)))]
         \<and> files s' = files s"
  using assms unfolding waste_analysis_def if_logger
  apply (elim and_then_eqE logger_eqE geoprocess_eqE GetCount_eqE return_eqE)
  apply (simp add: those_one those_two fun_upd_same del: those.simps fun_upd_apply)
  apply (elim exE conjE)
  apply (simp add: fun_upd_same del: those.simps fun_upd_apply)
  apply blast
  done

lemma summarize_units_eq:
  assumes "summarize_units env p s = (Inr (f, sm), s')"
  shows "\<exists>d tbl. store s p = Some d \<and> read_fields d = Some tbl
          \<and> (f, sm) = summarize_units_frames tbl
          \<and> files s' = files s @
               [(''df_final.csv'', Csv (csv_final f)),
                (''df_summary.csv'', Csv (csv_summary sm)),
                (''df_original.csv'', Csv (csv_original (FeatureClassToNumPyArray tbl)))]
          \<and> logfile s' = logfile s \<and> store s' = store s"
  using assms unfolding summarize_units_def
  apply (elim and_then_eqE write_file_eqE ToNumPyArray_eqE return_eqE)
  apply (simp add: summarize_units_frames_def Let_def)
  done

lemma aggregation_eq:
  assumes "aggregation env (gdb, bp, bu, ca) s = (Inr (f, sm), s')"
  shows "\<exists>d tbl. store s' (os_path_join gdb ''buildings_w_waste_areas_blduse'') = Some d
          \<and> read_fields d = Some tbl
          \<and> (f, sm) = summarize_units_frames tbl
          \<and> files s' = files s @
               [(''df_final.csv'', Csv (csv_final f)),
                (''df_summary.csv'', Csv (csv_summary sm)),
                (''df_original.csv'', Csv (csv_original (FeatureClassToNumPyArray tbl)))]
          \<and> logfile s' = logfile s @
               [(DEBUG, [Str (CHR 0x0A # ''Dissolving Building Polygons...'')]),
                (DEBUG, [Str (CHR 0x0A # ''Spatially Joining Building Polygons and Waste Collection Areas...'')]),
                (if int (row_count d) < 100000 then WARNING else DEBUG,
                 joined_records_msg (int (row_count d))),
                (DEBUG, [Str (CHR 0x0A # ''Summarizing Attributes...'')])]"
proof -
  from assms obtain t s1 s2 where
    w: "waste_analysis env gdb bp bu ca s = (Inr t, s1)" and
    l: "s2 = s1\<lparr>logfile := logfile s1 @ [(DEBUG, [Str (CHR 0x0A # ''Summarizing Attributes...'')])]\<rparr>" and
    u: "summarize_units env t s2 = (Inr (f, sm), s')"
    unfolding aggregation_def prod.case
    by (elim and_then_eqE logger_eqE) blast
  from waste_analysis_eq [OF w] obtain d3 d1 d4 where
    t: "t = os_path_join gdb ''buildings_w_waste_areas_blduse''" and
    st: "store s1 = (store s)(os_path_join gdb ''dissolved_building_polygons'' \<mapsto> d1,
                              os_path_join gdb ''buildings_w_waste_areas'' \<mapsto> d3,
                              os_path_join gdb ''buildings_w_waste_areas_blduse'' \<mapsto> d4)" and
    lg: "logfile s1 = logfile s @
              [(DEBUG, [Str (CHR 0x0A # ''Dissolving Building Polygons...'')]),
               (DEBUG, [Str (CHR 0x0A # ''Spatially Joining Building Polygons and Waste Collection Areas...'')]),
               (if int (row_count d4) < 100000 then WARNING else DEBUG,
                joined_records_msg (int (row_count d4)))]" and
    fl: "files s1 = files s"
    by blast
  from summarize_units_eq [OF u] obtain d tbl where
    d: "store s2 t = Some d" "read_fields d = Some tbl" "(f, sm) = summarize_units_frames tbl" and
    fl2: "files s' = files s2 @
               [(''df_final.csv'', Csv (csv_final f)),
                (''df_summary.csv'', Csv (csv_summary sm)),
                (''df_original.csv'', Csv (csv_original (FeatureClassToNumPyArray tbl)))]" and
    lg2: "logfile s' = logfile s2" and st2: "store s' = store s2"
    by blast
  have dd: "d = d4" using d(1) st t l by simp
  have a: "store s' (os_path_join gdb ''buildings_w_waste_areas_blduse'') = Some d"
    using st2 d(1) t by simp
  have b: "files s' = files s @
               [(''df_final.csv'', Csv (csv_final f)),
                (''df_summary.csv'', Csv (csv_summary sm)),
                (''df_original.csv'', Csv (csv_original (FeatureClassToNumPyArray tbl)))]"
    using fl2 fl l by simp
  have c: "logfile s' = logfile s @
               [(DEBUG, [Str (CHR 0x0A # ''Dissolving Building Polygons...'')]),
                (DEBUG, [Str (CHR 0x0A # ''Spatially Joining Building Polygons and Waste Collection Areas...'')]),
                (if int (row_count d) < 100000 then WARNING else DEBUG,
                 joined_records_msg (int (row_count d))),
                (DEBUG, [Str (CHR 0x0A # ''Summarizing Attributes...'')])]"
    using lg2 lg l dd by simp
  from a d(2,3) b c show ?thesis by blast
qed

lemma sanity_checks_Some:
  assumes "map_of f ''AREA 1'' = Some v"
  shows "sanity_checks f sm s =
           (Inr (), s\<lparr>logfile := logfile s @
              [(if int (length sm) < 130000 then WARNING else DEBUG, summary_rows_msg (int (length sm))),
               (if fst v < 30000 then WARNING else DEBUG, area_1_units_msg (fst v))]\<rparr>)"
  using assms
  by (simp add: sanity_checks_def and_then_def return_def loc_get_def logger_def)

lemma sanity_checks_None:
  assumes "map_of f ''AREA 1'' = None"
  shows "sanity_checks f sm s = (Inl (KeyError ''AREA 1''), s)"
  using assms
  by (simp add: sanity_checks_def and_then_def return_def loc_get_def)

lemma export_to_excel_eq:
  "export_to_excel env f sm s =
     (Inr (), if sm = [] then s
              else s\<lparr>files := files s @
                       [(OUTPUT_EXCEL_NAME env,
                         Excel [(''final'', sheet_final f), (''summary'', sheet_summary sm)])],
                     logfile := logfile s @ [(DEBUG, [Str (CHR 0x0A # ''Exported to Excel'')])]\<rparr>)"
  by (simp add: export_to_excel_def and_then_def write_file_def logger_def return_def)

lemma handler_eq:
  "handler e s =
     (Inr (), s\<lparr>logfile := logfile s @
        [(ERROR, (case e of ExecuteError m \<Rightarrow> [Str ''ARCPY ERROR: '', Str m]
                  | _ \<Rightarrow> [Str (str_exn e)]))]\<rparr>)"
  by (cases e) (simp_all add: handler_def logger_def)

lemma df_final_empty: "map_of (df_final []) ''AREA 1'' = None"
  by (simp add: df_final_def df_by_area_def groupby_agg_def loc_set_def rename_index_def
                column_sums_def)

lemma frames_area_1:
  assumes "(f, sm) = summarize_units_frames tbl" and "''AREA 1'' \<in> fst ` set f"
  shows "sm \<noteq> []"
proof
  assume "sm = []"
  with assms(1) have "f = df_final []"
    by (simp add: summarize_units_frames_def Let_def)
  then have "map_of f ''AREA 1'' = None" by (simp add: df_final_empty)
  with assms(2) show False by (simp add: map_of_eq_None_iff)
qed

lemma xlsx_not_csv: "OUTPUT_EXCEL_NAME env \<notin> csv_names"
  by (simp add: OUTPUT_EXCEL_NAME_def csv_names_def)

lemma pair_of_fst: "fst x = a \<Longrightarrow> x = (a, snd x)"
  by (cases x) simp

lemma staging_result:
  assumes "fst (staging env s) = Inr locs"
  shows "locs = staged env"
proof -
  have "sat (effect env {} {INFO} 0 4) (\<lambda>locs. locs = staged env) (staging env)"
    by (rule sat_staging) simp
  with assms show ?thesis unfolding sat_def by blast
qed

lemma staging_initial:
  "files (snd (staging env (initial st))) = []"
  "logfile (snd (staging env (initial st))) \<noteq> [] \<longrightarrow> fst ` set (logfile (snd (staging env (initial st)))) \<subseteq> {INFO}"
proof -
  have "sat (effect env {} {INFO} 0 4) (\<lambda>locs. locs = staged env) (staging env)"
    by (rule sat_staging) simp
  then have e: "effect env {} {INFO} 0 4 (initial st) (snd (staging env (initial st)))"
    unfolding sat_def by blast
  from effect_initial(5) [OF e] show "files (snd (staging env (initial st))) = []" by simp
  from effect_initial(4) [OF e]
  show "logfile (snd (staging env (initial st))) \<noteq> [] \<longrightarrow> fst ` set (logfile (snd (staging env (initial st)))) \<subseteq> {INFO}"
    by simp
qed

lemma main_after:
  assumes "fst (staging env s0) = Inr locs"
    and "fst (aggregation env locs (snd (staging env s0))) = Inr (f, sm)"
  shows "main env s0 =
           (case sanity_checks f sm (snd (aggregation env locs (snd (staging env s0)))) of
              (Inl e, s3) \<Rightarrow> handler e s3
            | (Inr u, s3) \<Rightarrow> export_to_excel env f sm s3)"
proof -
  let ?s1 = "snd (staging env s0)"
  let ?s2 = "snd (aggregation env locs ?s1)"
  have m: "main env s0 = try_except (try_body env locs) handler ?s1"
    unfolding main_def using assms(1) by (rule and_then_Inr_eq)
  have t: "try_body env locs ?s1 = and_then (sanity_checks f sm) (\<lambda>_. export_to_excel env f sm) ?s2"
  proof -
    have "and_then (aggregation env locs)
            (\<lambda>(f, sm). and_then (sanity_checks f sm) (\<lambda>_. export_to_excel env f sm)) ?s1
          = (\<lambda>(f, sm). and_then (sanity_checks f sm) (\<lambda>_. export_to_excel env f sm)) (f, sm) ?s2"
      using assms(2) by (rule and_then_Inr_eq)
    then show ?thesis unfolding try_body_def by simp
  qed
  show ?thesis
  proof (cases "sanity_checks f sm ?s2")
    case (Pair r s3)
    then show ?thesis
      unfolding m
      by (cases r) (simp_all add: try_except_def t and_then_def export_to_excel_eq)
  qed
qed

lemma export_reached:
  assumes "fst (staging env (initial st)) = Inr locs"
    and "fst (aggregation env locs (snd (staging env (initial st)))) = Inr (f, sm)"
    and "''AREA 1'' \<in> fst ` set f"
  shows "fst (main env (initial st)) = Inr ()
       \<and> sm \<noteq> []
       \<and> (\<exists>tbl. (f, sm) = summarize_units_frames tbl
              \<and> files (snd (main env (initial st))) =
                  [(''df_final.csv'', Csv (csv_final f)),
                   (''df_summary.csv'', Csv (csv_summary sm)),
                   (''df_original.csv'', Csv (csv_original (FeatureClassToNumPyArray tbl))),
                   (OUTPUT_EXCEL_NAME env,
                    Excel [(''final'', sheet_final f), (''summary'', sheet_summary sm)])])"
proof -
  let ?s1 = "snd (staging env (initial st))"
  let ?s2 = "snd (aggregation env locs ?s1)"
  obtain gdb bp bu ca where locs: "locs = (gdb, bp, bu, ca)" by (cases locs)
  have ag: "aggregation env (gdb, bp, bu, ca) ?s1 = (Inr (f, sm), ?s2)"
    using pair_of_fst [OF assms(2)] locs by simp
  from aggregation_eq [OF ag] obtain tbl where
    fr: "(f, sm) = summarize_units_frames tbl" and
    fl: "files ?s2 = files ?s1 @
               [(''df_final.csv'', Csv (csv_final f)),
                (''df_summary.csv'', Csv (csv_summary sm)),
                (''df_original.csv'', Csv (csv_original (FeatureClassToNumPyArray tbl)))]"
    by blast
  have ne: "sm \<noteq> []" using fr assms(3) by (rule frames_area_1)
  from assms(3) obtain v where v: "map_of f ''AREA 1'' = Some v"
    by (cases "map_of f ''AREA 1''") (auto simp: map_of_eq_None_iff)
  have m: "main env (initial st) =
             export_to_excel env f sm (?s2\<lparr>logfile := logfile ?s2 @
              [(if int (length sm) < 130000 then WARNING else DEBUG, summary_rows_msg (int (length sm))),
               (if fst v < 30000 then WARNING else DEBUG, area_1_units_msg (fst v))]\<rparr>)"
    unfolding main_after [OF assms(1,2)] sanity_checks_Some [OF v] by simp
  have a: "fst (main env (initial st)) = Inr ()"
    unfolding m by (simp add: export_to_excel_eq)
  have b: "files (snd (main env (initial st))) =
                  [(''df_final.csv'', Csv (csv_final f)),
                   (''df_summary.csv'', Csv (csv_summary sm)),
                   (''df_original.csv'', Csv (csv_original (FeatureClassToNumPyArray tbl))),
                   (OUTPUT_EXCEL_NAME env,
                    Excel [(''final'', sheet_final f), (''summary'', sheet_summary sm)])]"
    unfolding m using ne fl by (simp add: export_to_excel_eq staging_initial(1))
  from a ne fr b show ?thesis by blast
qed

lemma try_body_raises:
  assumes "fst (try_body env (staged env) s) = Inl e" and "{DEBUG, WARNING} \<subseteq> lvls"
  shows "effect env csv_names lvls 4 10 s (snd (try_body env (staged env) s))"
proof -
  let ?k = "\<lambda>(f, sm). and_then (sanity_checks f sm) (\<lambda>_. export_to_excel env f sm)"
  let ?sa = "snd (aggregation env (staged env) s)"
  have "sat (effect env csv_names lvls 4 10) (\<lambda>_. True) (aggregation env (staged env))"
    using assms(2) by (rule sat_aggregation) simp
  then have ea: "effect env csv_names lvls 4 10 s ?sa" unfolding sat_def by blast
  show ?thesis
  proof (cases "fst (aggregation env (staged env) s)")
    case (Inl e')
    have "and_then (aggregation env (staged env)) ?k s = (Inl e', ?sa)"
      using Inl by (rule and_then_Inl_eq)
    then show ?thesis using ea by (simp add: try_body_def)
  next
    case (Inr a)
    obtain f sm where a: "a = (f, sm)" by (cases a)
    have "and_then (aggregation env (staged env)) ?k s = ?k a ?sa"
      using Inr by (rule and_then_Inr_eq)
    then have tb: "try_body env (staged env) s
                 = and_then (sanity_checks f sm) (\<lambda>_. export_to_excel env f sm) ?sa"
      by (simp add: try_body_def a)
    have "sat (effect env csv_names lvls 10 10) (\<lambda>_. True) (sanity_checks f sm)"
      using assms(2) by (rule sat_sanity_checks)
    then have es: "effect env csv_names lvls 10 10 ?sa (snd (sanity_checks f sm ?sa))"
      unfolding sat_def by blast
    show ?thesis
    proof (cases "fst (sanity_checks f sm ?sa)")
      case (Inl e')
      have "and_then (sanity_checks f sm) (\<lambda>_. export_to_excel env f sm) ?sa
            = (Inl e', snd (sanity_checks f sm ?sa))"
        using Inl by (rule and_then_Inl_eq)
      then have "snd (try_body env (staged env) s) = snd (sanity_checks f sm ?sa)"
        by (simp add: tb)
      moreover have "effect env csv_names lvls 4 10 s (snd (sanity_checks f sm ?sa))"
        using ea es by (rule effect_trans) simp_all
      ultimately show ?thesis by simp
    next
      case (Inr u)
      have "and_then (sanity_checks f sm) (\<lambda>_. export_to_excel env f sm) ?sa
            = export_to_excel env f sm (snd (sanity_checks f sm ?sa))"
        using Inr by (rule and_then_Inr_eq)
      then have "fst (try_body env (staged env) s) = Inr ()"
        by (simp add: tb export_to_excel_eq)
      with assms(1) show ?thesis by simp
    qed
  qed
qed



lemma demo_other_staging:
  "fst (staging (demo_env no_fault) (initial demo_store_other_labels)) = Inr (staged (demo_env no_fault))"
  by code_simp

lemma demo_other_aggregation:
  "fst (aggregation (demo_env no_fault) (staged (demo_env no_fault))
          (snd (staging (demo_env no_fault) (initial demo_store_other_labels))))
     = Inr ([(''NORTH'', 4, 1), (''SOUTH'', 0, 1), (''TOTAL'', 4, 2)],
            [((''NORTH'', 1), 4, 1), ((''SOUTH'', 2), 0, 1)])"
  by code_simp

lemma demo_fault_staging:
  "fst (staging (demo_env (fault_at Dissolve ''ERROR 999999'')) (initial demo_store))
     = Inr (staged (demo_env (fault_at Dissolve ''ERROR 999999'')))"
  by code_simp

lemma demo_fault_try_body:
  "fst (try_body (demo_env (fault_at Dissolve ''ERROR 999999''))
          (staged (demo_env (fault_at Dissolve ''ERROR 999999'')))
          (snd (staging (demo_env (fault_at Dissolve ''ERROR 999999'')) (initial demo_store))))
     = Inl (ExecuteError ''ERROR 999999'')"
  by code_simp

lemma demo_waste_analysis:
  "fst (waste_analysis (demo_env no_fault) (working_gdb (demo_env no_fault))
          (os_path_join (working_gdb (demo_env no_fault)) ''BLD_building_polygon'')
          (os_path_join (working_gdb (demo_env no_fault)) ''BLD_BUILDING_USE'')
          (os_path_join (working_gdb (demo_env no_fault)) ''ADM_waste_coll_area'')
          (snd (staging (demo_env no_fault) (initial demo_store))))
     = Inr [''scripts'', ''temp_workspace.gdb'', ''buildings_w_waste_areas_blduse'']"
  by code_simp

lemma demo_waste_table:
  "store (snd (waste_analysis (demo_env no_fault) (working_gdb (demo_env no_fault))
          (os_path_join (working_gdb (demo_env no_fault)) ''BLD_building_polygon'')
          (os_path_join (working_gdb (demo_env no_fault)) ''BLD_BUILDING_USE'')
          (os_path_join (working_gdb (demo_env no_fault)) ''ADM_waste_coll_area'')
          (snd (staging (demo_env no_fault) (initial demo_store)))))
      [''scripts'', ''temp_workspace.gdb'', ''buildings_w_waste_areas_blduse'']
     = Some (UseJoin [(2, [5], 1, Some ''AREA 2'', None), (1, [1, 2], 1, Some ''AREA 1'', Some 4)])"
  by code_simp

section \<open>Properties of the geometry pipeline\<close>

lemma waste_analysis_returns:
  assumes "store s bp = Some (Polygons ps)"
    and "store s bu = Some (UseTable us)"
    and "store s ca = Some (Areas areas)"
    and "ca \<noteq> os_path_join ws ''dissolved_building_polygons''"
    and "bu \<noteq> os_path_join ws ''dissolved_building_polygons''"
    and "bu \<noteq> os_path_join ws ''buildings_w_waste_areas''"
    and "fault env Dissolve = None" and "fault env SpatialJoin = None"
    and "fault env JoinField = None" and "fault env Export_joined = None"
    and "fault env GetCount = None"
  shows "fst (waste_analysis env ws bp bu ca s) = Inr (os_path_join ws ''buildings_w_waste_areas_blduse'')"
    and "store (snd (waste_analysis env ws bp bu ca s)) (os_path_join ws ''buildings_w_waste_areas_blduse'')
           = Some (UseJoin (waste_table env ps us areas))"
  using assms
  by (simp_all add: waste_analysis_def and_then_def logger_def geoprocess_def GetCount_management_def
        return_def Let_def Dissolve_tool_def SpatialJoin_tool_def JoinField_tool_def Export_tool_def
        waste_table_def)

lemma Dissolve_rows_ids: "map fst (Dissolve_rows merge ps) = remdups (map fst ps)"
  by (simp add: Dissolve_rows_def comp_def)

lemma find_filter_conv: "find P xs = None \<longleftrightarrow> filter P xs = []"
  by (induction xs) auto

lemma waste_table_rows:
  "waste_table env ps us areas =
     map (\<lambda>b. (b, building_shape (merge_parts env) ps b,
               length (filter (\<lambda>a. intersects env (building_shape (merge_parts env) ps b) (snd a)) areas),
               map_option fst (find (\<lambda>a. intersects env (building_shape (merge_parts env) ps b) (snd a)) areas),
               (case find (\<lambda>u. fst u = b) us of None \<Rightarrow> None | Some u \<Rightarrow> snd u)))
         (filter (\<lambda>b. \<exists>a \<in> set areas. intersects env (building_shape (merge_parts env) ps b) (snd a))
                 (remdups (map fst ps)))"
  by (simp add: waste_table_def where_Join_Count_def JoinField_rows_def SpatialJoin_rows_def
                Dissolve_rows_def filter_map comp_def Join_Count_def filter_empty_conv)

lemma waste_table_ids:
  "map fst (waste_table env ps us areas) =
     filter (\<lambda>b. \<exists>a \<in> set areas. intersects env (building_shape (merge_parts env) ps b) (snd a))
            (remdups (map fst ps))"
  unfolding waste_table_rows by (simp add: comp_def)

lemma demo_local_stores:
  "store (snd (staging (demo_env no_fault) (initial demo_store)))
     (os_path_join (working_gdb (demo_env no_fault)) ''BLD_building_polygon'')
     = Some (Polygons [(1, [1]), (2, [5]), (1, [2]), (3, [9])])"
  "store (snd (staging (demo_env no_fault) (initial demo_store)))
     (os_path_join (working_gdb (demo_env no_fault)) ''BLD_BUILDING_USE'')
     = Some (UseTable [(1, Some 4), (2, None), (3, Some 2)])"
  "store (snd (staging (demo_env no_fault) (initial demo_store)))
     (os_path_join (working_gdb (demo_env no_fault)) ''ADM_waste_coll_area'')
     = Some (Areas [(''AREA 1'', [1, 2, 3]), (''AREA 2'', [4, 5, 6])])"
  by code_simp+

lemma demo_waste_table_value:
  "waste_table (demo_env no_fault) [(1, [1]), (2, [5]), (1, [2]), (3, [9])]
     [(1, Some 4), (2, None), (3, Some 2)] [(''AREA 1'', [1, 2, 3]), (''AREA 2'', [4, 5, 6])]
   = [(2, [5], 1, Some ''AREA 2'', None), (1, [1, 2], 1, Some ''AREA 1'', Some 4)]"
  by code_simp

lemma demo_spatial_join:
  "SpatialJoin_rows cells_intersect [(1, [1, 2])] [(''AREA 1'', [2, 3]), (''AREA 2'', [1])]
     = [(1, [1, 2], 2, Some ''AREA 1'')]"
  by code_simp

text \<open>The table the pipeline hands to \<open>summarize_units\<close> has one row per building.\<close>

lemma pipeline_table_one_row_per_building:
  "\<exists>tbl. read_fields (UseJoin (waste_table env ps us areas)) = Some tbl
         \<and> distinct (map BL_ID tbl)
         \<and> distinct (map (\<lambda>r. (COLL_AREA r, BL_ID r)) tbl)"
proof -
  let ?tbl = "map (\<lambda>(b, g, n, a, u). (b, (case a of None \<Rightarrow> ''None'' | Some l \<Rightarrow> l), u))
                (waste_table env ps us areas)"
  have r: "read_fields (UseJoin (waste_table env ps us areas)) = Some ?tbl" by simp
  have m: "map BL_ID ?tbl = map fst (waste_table env ps us areas)"
    by (simp add: BL_ID_def comp_def split_def)
  have d: "distinct (map BL_ID ?tbl)"
    unfolding m waste_table_ids by simp
  from r d distinct_keys_of_ids [OF d] show ?thesis by blast
qed




section \<open>Claims on the aggregation\<close>


text \<open>
  The two filters agree on a table with at most one row per building and collection area
  (such as the table \<open>waste_analysis\<close> builds): there the rows of the summary are the
  buildings whose unit total is at most 6, each area row counts exactly those buildings of
  the area and sums their totals, and the final table is made from these area rows.
\<close>

lemma summarize_units_single_rows:
  assumes "distinct (map (\<lambda>r. (COLL_AREA r, BL_ID r)) tbl)"
  shows "map fst (snd (summarize_units_frames tbl)) = included_buildings (FeatureClassToNumPyArray tbl)
       \<and> df_by_area (snd (summarize_units_frames tbl)) = report_le6 (FeatureClassToNumPyArray tbl)
       \<and> fst (summarize_units_frames tbl) =
           rename_index (loc_set ''TOTAL'' (column_sums (report_le6 (FeatureClassToNumPyArray tbl)))
                           (report_le6 (FeatureClassToNumPyArray tbl)))"
proof -
  let ?df = "FeatureClassToNumPyArray tbl"
  have d: "distinct (map (\<lambda>r. (COLL_AREA r, BL_ID r)) ?df)"
    using assms by (simp only: keys_of_array)
  have a: "map fst (snd (summarize_units_frames tbl)) = included_buildings ?df"
    using included_eq_keys [OF d] by (simp add: summarize_units_frames_def Let_def)
  have b: "df_by_area (snd (summarize_units_frames tbl)) = report_le6 ?df"
    using report_refines [OF d] by (simp add: summarize_units_frames_def Let_def)
  have c: "fst (summarize_units_frames tbl) =
           rename_index (loc_set ''TOTAL'' (column_sums (report_le6 ?df)) (report_le6 ?df))"
    using report_refines [OF d] by (simp add: summarize_units_frames_def Let_def df_final_def)
  from a b c show ?thesis by blast
qed

text \<open>
  C2.  The grand-total row is to be added as the last row of the final table.  On a table
  with a collection area that is itself labelled \<open>TOTAL\<close> (1 unit in 1 building) and an
  area \<open>ZONE 9\<close> (2 units in 1 building), the assignment \<open>df_final.loc["TOTAL"]\<close>
  overwrites the row of the area \<open>TOTAL\<close> with the column sums (3 units, 2 buildings):
  the area's own figures are lost, no row is added, and the last row is \<open>ZONE 9\<close>.
\<close>

theorem summarize_units_area_labelled_TOTAL:
  "summarize_units_frames [(1, ''TOTAL'', Some 1), (2, ''ZONE 9'', Some 2)]
     = ([(''TOTAL'', 3, 2), (''ZONE 9'', 2, 1)],
        [((''TOTAL'', 1), 1, 1), ((''ZONE 9'', 2), 2, 1)])
   \<and> df_by_area (snd (summarize_units_frames [(1, ''TOTAL'', Some 1), (2, ''ZONE 9'', Some 2)]))
     = [(''TOTAL'', 1, 1), (''ZONE 9'', 2, 1)]
   \<and> last (fst (summarize_units_frames [(1, ''TOTAL'', Some 1), (2, ''ZONE 9'', Some 2)]))
     = (''ZONE 9'', 2, 1)"
  by code_simp

text \<open>
  When no row kept by the filter has the collection area label \<open>TOTAL\<close>, the row is
  appended: the rows of the final table but the last are the per-area rows, the last row
  is labelled \<open>TOTAL\<close>, and its two entries are the column sums over the per-area rows.
\<close>

lemma summarize_units_total_appended:
  assumes "''TOTAL'' \<notin> COLL_AREA ` set (query_le6 (FeatureClassToNumPyArray tbl))"
  shows "fst (summarize_units_frames tbl) \<noteq> []
       \<and> butlast (fst (summarize_units_frames tbl)) = rename_index (df_by_area (snd (summarize_units_frames tbl)))
       \<and> last (fst (summarize_units_frames tbl)) = (''TOTAL'', column_sums (butlast (fst (summarize_units_frames tbl))))"
proof -
  let ?s1 = "df_summary_one (FeatureClassToNumPyArray tbl)"
  have "''TOTAL'' \<notin> fst ` set (df_by_area ?s1)"
    using assms area_labels [of "FeatureClassToNumPyArray tbl"] by simp
  then have "df_final ?s1 = rename_index (df_by_area ?s1) @ [(''TOTAL'', column_sums (df_by_area ?s1))]"
    by (rule df_final_append)
  then show ?thesis
    by (simp add: summarize_units_frames_def Let_def column_sums_rename)
qed

text \<open>
  C9.  A row with a NULL unit count, anywhere in the table (between \<open>xs\<close> and \<open>ys\<close>):
  the value is read as 0 and the row passes the filter; the summary has a row for every
  (area, building) of a row that passed, so for this building too, whatever its total;
  every per-building sum, every per-area sum and the grand total of the units are what
  they are without the row; and the building count of the row's area is 1, for this
  building, plus the number of other buildings of the area.
\<close>

theorem null_units_row:
  "let df = FeatureClassToNumPyArray (xs @ (b, a, None) # ys);
       df' = FeatureClassToNumPyArray (xs @ ys);
       s = df_summary_one df;
       s' = df_summary_one df'
   in (b, a, 0) \<in> set (query_le6 df)
    \<and> set (map fst s) = (\<lambda>r. (COLL_AREA r, BL_ID r)) ` set (query_le6 df)
    \<and> (a, b) \<in> set (map fst s)
    \<and> (\<forall>k. units_of s k = units_of s' k)
    \<and> (\<forall>l. units_of (df_by_area s) l = units_of (df_by_area s') l)
    \<and> fst (column_sums (df_by_area s)) = fst (column_sums (df_by_area s'))
    \<and> count_of (df_by_area s) a =
        1 + int (card (BL_ID ` {r \<in> set (query_le6 df'). COLL_AREA r = a} - {b}))"
proof -
  let ?T = "xs @ (b, a, None) # ys"
  let ?q = "query_le6 (FeatureClassToNumPyArray ?T)"
  let ?q' = "query_le6 (FeatureClassToNumPyArray (xs @ ys))"
  have q: "?q = query_le6 (FeatureClassToNumPyArray xs) @ (b, a, 0) # query_le6 (FeatureClassToNumPyArray ys)"
    by (rule query_null_row)
  have q': "?q' = query_le6 (FeatureClassToNumPyArray xs) @ query_le6 (FeatureClassToNumPyArray ys)"
    by (rule query_append)
  have c1: "(b, a, 0) \<in> set ?q" by (simp add: q)
  have c2: "set (map fst (df_summary_one (FeatureClassToNumPyArray ?T)))
            = (\<lambda>r. (COLL_AREA r, BL_ID r)) ` set ?q"
    by (rule summary_keys)
  have c3: "(a, b) \<in> set (map fst (df_summary_one (FeatureClassToNumPyArray ?T)))"
    unfolding c2 using c1 by (force simp: COLL_AREA_def BL_ID_def)
  have c4: "units_of (df_summary_one (FeatureClassToNumPyArray ?T)) k
          = units_of (df_summary_one (FeatureClassToNumPyArray (xs @ ys))) k" for k
    unfolding units_of_summary q q' by (simp add: DWEL_UNITS_def)
  have c5: "units_of (df_by_area (df_summary_one (FeatureClassToNumPyArray ?T))) l
          = units_of (df_by_area (df_summary_one (FeatureClassToNumPyArray (xs @ ys)))) l" for l
    unfolding units_of_area q q' by (simp add: DWEL_UNITS_def)
  have c6: "fst (column_sums (df_by_area (df_summary_one (FeatureClassToNumPyArray ?T))))
          = fst (column_sums (df_by_area (df_summary_one (FeatureClassToNumPyArray (xs @ ys)))))"
    unfolding column_sums_by_area fst_conv summary_units_total q q' by (simp add: DWEL_UNITS_def)
  have "BL_ID ` {r \<in> set ?q. COLL_AREA r = a} = insert b (BL_ID ` {r \<in> set ?q'. COLL_AREA r = a})"
  proof -
    have "{r \<in> set ?q. COLL_AREA r = a} = insert (b, a, 0) {r \<in> set ?q'. COLL_AREA r = a}"
      unfolding q q' by (auto simp: COLL_AREA_def)
    then show ?thesis by (simp add: BL_ID_def)
  qed
  moreover have "finite (BL_ID ` {r \<in> set ?q'. COLL_AREA r = a})" by simp
  ultimately have "card (BL_ID ` {r \<in> set ?q. COLL_AREA r = a})
                 = 1 + card (BL_ID ` {r \<in> set ?q'. COLL_AREA r = a} - {b})"
    by (simp add: card.insert_remove)
  then have c7: "count_of (df_by_area (df_summary_one (FeatureClassToNumPyArray ?T))) a
               = 1 + int (card (BL_ID ` {r \<in> set ?q'. COLL_AREA r = a} - {b}))"
    unfolding count_of_area by simp
  show ?thesis
    unfolding Let_def using c1 c2 c3 c4 c5 c6 c7 by blast
qed

text \<open>C9 at a table whose only row has a NULL unit count: one building, 0 units.\<close>

theorem null_units_row_witness:
  "summarize_units_frames [(7, ''AREA 1'', None)] = ([(''AREA 1'', 0, 1), (''TOTAL'', 0, 1)], [((''AREA 1'', 7), 0, 1)])
   \<and> (7, ''AREA 1'', 0) \<in> set (query_le6 (FeatureClassToNumPyArray ([] @ (7, ''AREA 1'', None) # [])))
   \<and> count_of (df_by_area (df_summary_one (FeatureClassToNumPyArray ([] @ (7, ''AREA 1'', None) # [])))) ''AREA 1'' = 1"
proof -
  have e: "summarize_units_frames [(7, ''AREA 1'', None)] = ([(''AREA 1'', 0, 1), (''TOTAL'', 0, 1)], [((''AREA 1'', 7), 0, 1)])"
    by code_simp
  have z: "BL_ID ` {r \<in> set (query_le6 (FeatureClassToNumPyArray ([] @ []))). COLL_AREA r = ''AREA 1''} - {7} = {}"
    by (simp add: query_le6_def FeatureClassToNumPyArray_def)
  from null_units_row [of "[]" 7 "''AREA 1''" "[]"] e z show ?thesis
    by (simp add: Let_def)
qed

section \<open>Claims on the run\<close>



text \<open>
  C4, as amended.  The check of the joined-record count logs exactly one record when the
  geometry pipeline reaches it: at level \<open>WARNING\<close> when the row count of the table
  \<open>waste_analysis\<close> returns is below 100000, at level \<open>DEBUG\<close> otherwise.  The checks
  of the summary row count (against 130000) and of the unit sum of \<open>AREA 1\<close> (against
  30000) come after the lookup of the row \<open>AREA 1\<close> of the final frame: when the frame
  has that row, each logs exactly one record, \<open>WARNING\<close> below its threshold and
  \<open>DEBUG\<close> otherwise; when it has not, the lookup raises \<open>KeyError\<close> and neither check
  logs anything.
\<close>

theorem sanity_warnings:
  "(waste_analysis env ws bp bu ca s = (Inr t, s') \<longrightarrow>
      (\<exists>d. store s' t = Some d
          \<and> logfile s' = logfile s @
              [(DEBUG, [Str (CHR 0x0A # ''Dissolving Building Polygons...'')]),
               (DEBUG, [Str (CHR 0x0A # ''Spatially Joining Building Polygons and Waste Collection Areas...'')]),
               (if int (row_count d) < 100000 then WARNING else DEBUG,
                joined_records_msg (int (row_count d)))]))
   \<and> sanity_checks f sm s2 =
       (case map_of f ''AREA 1'' of
          None \<Rightarrow> (Inl (KeyError ''AREA 1''), s2)
        | Some v \<Rightarrow>
            (Inr (), s2\<lparr>logfile := logfile s2 @
               [(if int (length sm) < 130000 then WARNING else DEBUG, summary_rows_msg (int (length sm))),
                (if fst v < 30000 then WARNING else DEBUG, area_1_units_msg (fst v))]\<rparr>))"
proof (intro conjI impI)
  assume w: "waste_analysis env ws bp bu ca s = (Inr t, s')"
  from waste_analysis_eq [OF w] obtain d1 d3 d4 where
    t: "t = os_path_join ws ''buildings_w_waste_areas_blduse''" and
    st: "store s' = (store s)(os_path_join ws ''dissolved_building_polygons'' \<mapsto> d1,
                              os_path_join ws ''buildings_w_waste_areas'' \<mapsto> d3,
                              os_path_join ws ''buildings_w_waste_areas_blduse'' \<mapsto> d4)" and
    lg: "logfile s' = logfile s @
              [(DEBUG, [Str (CHR 0x0A # ''Dissolving Building Polygons...'')]),
               (DEBUG, [Str (CHR 0x0A # ''Spatially Joining Building Polygons and Waste Collection Areas...'')]),
               (if int (row_count d4) < 100000 then WARNING else DEBUG,
                joined_records_msg (int (row_count d4)))]"
    by blast
  have "store s' t = Some d4" using st t by simp
  with lg show "\<exists>d. store s' t = Some d
          \<and> logfile s' = logfile s @
              [(DEBUG, [Str (CHR 0x0A # ''Dissolving Building Polygons...'')]),
               (DEBUG, [Str (CHR 0x0A # ''Spatially Joining Building Polygons and Waste Collection Areas...'')]),
               (if int (row_count d) < 100000 then WARNING else DEBUG,
                joined_records_msg (int (row_count d)))]"
    by blast
next
  show "sanity_checks f sm s2 =
       (case map_of f ''AREA 1'' of
          None \<Rightarrow> (Inl (KeyError ''AREA 1''), s2)
        | Some v \<Rightarrow>
            (Inr (), s2\<lparr>logfile := logfile s2 @
               [(if int (length sm) < 130000 then WARNING else DEBUG, summary_rows_msg (int (length sm))),
                (if fst v < 30000 then WARNING else DEBUG, area_1_units_msg (fst v))]\<rparr>))"
  proof (cases "map_of f ''AREA 1''")
    case None
    then show ?thesis by (simp add: sanity_checks_None)
  next
    case (Some v)
    then show ?thesis by (simp add: sanity_checks_Some)
  qed
qed

text \<open>
  C4 as amended, on the concrete run (2 joined records), on frames with 40000 units in
  \<open>AREA 1\<close>, and on frames without a row \<open>AREA 1\<close>.
\<close>

theorem sanity_warnings_witness:
  "logfile (snd (waste_analysis (demo_env no_fault) (working_gdb (demo_env no_fault))
          (os_path_join (working_gdb (demo_env no_fault)) ''BLD_building_polygon'')
          (os_path_join (working_gdb (demo_env no_fault)) ''BLD_BUILDING_USE'')
          (os_path_join (working_gdb (demo_env no_fault)) ''ADM_waste_coll_area'')
          (snd (staging (demo_env no_fault) (initial demo_store)))))
     = logfile (snd (staging (demo_env no_fault) (initial demo_store))) @
         [(DEBUG, [Str (CHR 0x0A # ''Dissolving Building Polygons...'')]),
          (DEBUG, [Str (CHR 0x0A # ''Spatially Joining Building Polygons and Waste Collection Areas...'')]),
          (WARNING, joined_records_msg 2)]
   \<and> sanity_checks [(''AREA 1'', 40000, 7)] [] (initial demo_store)
     = (Inr (), (initial demo_store)\<lparr>logfile := logfile (initial demo_store) @
          [(WARNING, summary_rows_msg 0), (DEBUG, area_1_units_msg 40000)]\<rparr>)
   \<and> sanity_checks [(''NORTH'', 4, 1), (''TOTAL'', 4, 1)] [((''NORTH'', 1), 4, 1)] (initial demo_store)
     = (Inl (KeyError ''AREA 1''), initial demo_store)"
proof -
  let ?D = "demo_env no_fault"
  let ?S = "snd (staging ?D (initial demo_store))"
  let ?W = "waste_analysis ?D (working_gdb ?D)
          (os_path_join (working_gdb ?D) ''BLD_building_polygon'')
          (os_path_join (working_gdb ?D) ''BLD_BUILDING_USE'')
          (os_path_join (working_gdb ?D) ''ADM_waste_coll_area'') ?S"
  have w: "?W = (Inr [''scripts'', ''temp_workspace.gdb'', ''buildings_w_waste_areas_blduse''], snd ?W)"
    using demo_waste_analysis by (rule pair_of_fst)
  have m: "map_of [(''AREA 1'', 40000::int, 7::int)] ''AREA 1'' = Some (40000, 7)" by simp
  have n: "map_of [(''NORTH'', 4::int, 1::int), (''TOTAL'', 4, 1)] ''AREA 1'' = None" by simp
  from sanity_warnings [where env = ?D and ws = "working_gdb ?D"
      and bp = "os_path_join (working_gdb ?D) ''BLD_building_polygon''"
      and bu = "os_path_join (working_gdb ?D) ''BLD_BUILDING_USE''"
      and ca = "os_path_join (working_gdb ?D) ''ADM_waste_coll_area''"
      and s = ?S and t = "[''scripts'', ''temp_workspace.gdb'', ''buildings_w_waste_areas_blduse'']"
      and s' = "snd ?W" and f = "[(''AREA 1'', 40000, 7)]" and sm = "[]"
      and ?s2.0 = "initial demo_store"]
    w m demo_waste_table
  have a: "logfile (snd ?W) = logfile ?S @
         [(DEBUG, [Str (CHR 0x0A # ''Dissolving Building Polygons...'')]),
          (DEBUG, [Str (CHR 0x0A # ''Spatially Joining Building Polygons and Waste Collection Areas...'')]),
          (WARNING, joined_records_msg 2)]
     \<and> sanity_checks [(''AREA 1'', 40000, 7)] [] (initial demo_store)
     = (Inr (), (initial demo_store)\<lparr>logfile := logfile (initial demo_store) @
          [(WARNING, summary_rows_msg 0), (DEBUG, area_1_units_msg 40000)]\<rparr>)"
    by auto
  from sanity_warnings [where f = "[(''NORTH'', 4, 1), (''TOTAL'', 4, 1)]"
      and sm = "[((''NORTH'', 1), 4, 1)]" and ?s2.0 = "initial demo_store", THEN conjunct2] n
  have b: "sanity_checks [(''NORTH'', 4, 1), (''TOTAL'', 4, 1)] [((''NORTH'', 1), 4, 1)] (initial demo_store)
     = (Inl (KeyError ''AREA 1''), initial demo_store)"
    by simp
  from a b show ?thesis by blast
qed

text \<open>
  C4 as stated fails on the run with collection areas labelled \<open>NORTH\<close> and \<open>SOUTH\<close>:
  the summary has 2 rows, fewer than 130000, and the run logs no record of the summary row
  count, since the lookup of \<open>AREA 1\<close> raises before the check.  The log has the warning
  on the joined-record count and ends with the \<open>KeyError\<close>.
\<close>

theorem summary_rows_unchecked_counterexample:
  "fst (aggregation (demo_env no_fault) (staged (demo_env no_fault))
          (snd (staging (demo_env no_fault) (initial demo_store_other_labels))))
     = Inr ([(''NORTH'', 4, 1), (''SOUTH'', 0, 1), (''TOTAL'', 4, 2)],
            [((''NORTH'', 1), 4, 1), ((''SOUTH'', 2), 0, 1)])
   \<and> logfile (snd (main (demo_env no_fault) (initial demo_store_other_labels))) =
       [(INFO, [Str ''Preparing Workspace...'']),
        (DEBUG, [Str (CHR 0x0A # ''Dissolving Building Polygons...'')]),
        (DEBUG, [Str (CHR 0x0A # ''Spatially Joining Building Polygons and Waste Collection Areas...'')]),
        (WARNING, joined_records_msg 2),
        (DEBUG, [Str (CHR 0x0A # ''Summarizing Attributes...'')]),
        (ERROR, [Str (str_exn (KeyError ''AREA 1''))])]
   \<and> (WARNING, summary_rows_msg 2) \<notin> set (logfile (snd (main (demo_env no_fault) (initial demo_store_other_labels))))"
  by code_simp

text \<open>
  C5.  When the geodatabase of record does not lie inside the working geodatabase, the three
  source datasets are, at the end of every run (whatever fails), what they were at the
  start; so is every dataset outside the working geodatabase.  Every engine call of the run
  writes only inside the working geodatabase; the three staging copies read their source,
  and every other call reads only inside the working geodatabase.
\<close>

theorem sources_unchanged:
  assumes "\<not> inside (working_gdb env) (SDE env)"
  shows "store (snd (main env (initial st))) (BUILDING_POLYGONS_FEATURE env) = st (BUILDING_POLYGONS_FEATURE env)
       \<and> store (snd (main env (initial st))) (BUILDING_USE_TABLE env) = st (BUILDING_USE_TABLE env)
       \<and> store (snd (main env (initial st))) (WASTE_COLLECTION_AREAS_FEATURE env)
           = st (WASTE_COLLECTION_AREAS_FEATURE env)
       \<and> (\<forall>p. \<not> inside (working_gdb env) p \<longrightarrow> store (snd (main env (initial st))) p = st p)
       \<and> list_all (\<lambda>t. reads_ok env t \<and> writes_ok env t) (trace (snd (main env (initial st))))"
proof -
  have "sat (effect env (insert (OUTPUT_EXCEL_NAME env) csv_names) UNIV 0 10) (\<lambda>_. True) (main env)"
    by (rule sat_main) blast+
  then have e: "effect env (insert (OUTPUT_EXCEL_NAME env) csv_names) UNIV 0 10
                  (initial st) (snd (main env (initial st)))"
    unfolding sat_def by blast
  note fr = effect_initial(1) [OF e] and tr = effect_initial(2) [OF e]
  from fr remote_not_inside [OF assms] tr show ?thesis by simp
qed

text \<open>C5 on the concrete run: the building polygons of record are unchanged.\<close>

theorem sources_unchanged_witness:
  "store (snd (main (demo_env no_fault) (initial demo_store)))
     [''server.sde'', ''SDEADM.BLD_building_polygon'']
     = Some (Polygons [(1, [1]), (2, [5]), (1, [2]), (3, [9])])
   \<and> list_all (\<lambda>t. reads_ok (demo_env no_fault) t \<and> writes_ok (demo_env no_fault) t)
        (trace (snd (main (demo_env no_fault) (initial demo_store))))"
proof -
  have h: "\<not> inside (working_gdb (demo_env no_fault)) (SDE (demo_env no_fault))"
    by (simp add: inside_def working_gdb_def demo_env_def os_path_join_def)
  have p: "BUILDING_POLYGONS_FEATURE (demo_env no_fault) = [''server.sde'', ''SDEADM.BLD_building_polygon'']"
    by (simp add: BUILDING_POLYGONS_FEATURE_def demo_env_def os_path_join_def)
  have d: "demo_store [''server.sde'', ''SDEADM.BLD_building_polygon'']
             = Some (Polygons [(1, [1]), (2, [5]), (1, [2]), (3, [9])])"
    by (simp add: demo_store_def)
  from sources_unchanged [OF h, of demo_store] p d show ?thesis by simp
qed

text \<open>
  C8, as amended.  When staging has succeeded and the \<open>try\<close> block raises the exception
  \<open>e\<close>, the run ends normally; after the exception nothing happens but one log record of
  level \<open>ERROR\<close> (the engine's messages for an \<open>ExecuteError\<close>, the exception's text
  otherwise), which is the run's only record of that level; no engine call is made a
  second time; and no workbook has been written.
\<close>

theorem exception_in_try:
  assumes "fst (staging env (initial st)) = Inr locs"
    and "fst (try_body env locs (snd (staging env (initial st)))) = Inl e"
  shows "fst (main env (initial st)) = Inr ()
       \<and> logfile (snd (main env (initial st))) =
           logfile (snd (try_body env locs (snd (staging env (initial st)))))
             @ [(ERROR, (case e of ExecuteError m \<Rightarrow> [Str ''ARCPY ERROR: '', Str m]
                          | _ \<Rightarrow> [Str (str_exn e)]))]
       \<and> filter (\<lambda>r. fst r = ERROR) (logfile (snd (main env (initial st)))) =
           [(ERROR, (case e of ExecuteError m \<Rightarrow> [Str ''ARCPY ERROR: '', Str m]
                      | _ \<Rightarrow> [Str (str_exn e)]))]
       \<and> trace (snd (main env (initial st))) = trace (snd (try_body env locs (snd (staging env (initial st)))))
       \<and> distinct (map fst (trace (snd (main env (initial st)))))
       \<and> files (snd (main env (initial st))) = files (snd (try_body env locs (snd (staging env (initial st)))))
       \<and> OUTPUT_EXCEL_NAME env \<notin> fst ` set (files (snd (main env (initial st))))"
proof -
  let ?L = "{DEBUG, INFO, WARNING}"
  let ?s1 = "snd (staging env (initial st))"
  have locs: "locs = staged env" using assms(1) by (rule staging_result)
  let ?s2 = "snd (try_body env (staged env) ?s1)"
  have "sat (effect env csv_names ?L 0 4) (\<lambda>locs. locs = staged env) (staging env)"
    by (rule sat_staging) simp
  then have e1: "effect env csv_names ?L 0 4 (initial st) ?s1" unfolding sat_def by blast
  have e2: "effect env csv_names ?L 4 10 ?s1 ?s2"
    using assms(2) unfolding locs by (rule try_body_raises) simp
  have e: "effect env csv_names ?L 0 10 (initial st) ?s2"
    using e1 e2 by (rule effect_trans) simp_all
  have m1: "main env (initial st) = try_except (try_body env locs) handler ?s1"
    unfolding main_def using assms(1) by (rule and_then_Inr_eq)
  have m: "main env (initial st) = handler e ?s2"
    unfolding m1 locs using assms(2) [unfolded locs] by (rule try_except_Inl_eq)
  have lv: "fst ` set (logfile ?s2) \<subseteq> ?L" by (rule effect_initial(4) [OF e])
  have "filter (\<lambda>r. fst r = ERROR) (logfile ?s2) = []"
    using lv by (auto simp: filter_empty_conv)
  then have a: "filter (\<lambda>r. fst r = ERROR) (logfile (snd (main env (initial st)))) =
           [(ERROR, (case e of ExecuteError m \<Rightarrow> [Str ''ARCPY ERROR: '', Str m]
                      | _ \<Rightarrow> [Str (str_exn e)]))]"
    unfolding m by (simp add: handler_eq)
  have b: "distinct (map fst (trace (snd (main env (initial st)))))"
    unfolding m using effect_initial(3) [OF e] by (simp add: handler_eq)
  have "fst ` set (files ?s2) \<subseteq> csv_names" by (rule effect_initial(5) [OF e])
  then have c: "OUTPUT_EXCEL_NAME env \<notin> fst ` set (files (snd (main env (initial st))))"
    unfolding m using xlsx_not_csv [of env] by (auto simp: handler_eq)
  show ?thesis
    using a b c unfolding m locs by (simp add: handler_eq)
qed

text \<open>C8 as amended, on a run whose Dissolve call fails.\<close>

theorem exception_in_try_witness:
  "fst (main (demo_env (fault_at Dissolve ''ERROR 999999'')) (initial demo_store)) = Inr ()
   \<and> filter (\<lambda>r. fst r = ERROR)
        (logfile (snd (main (demo_env (fault_at Dissolve ''ERROR 999999'')) (initial demo_store))))
       = [(ERROR, [Str ''ARCPY ERROR: '', Str ''ERROR 999999''])]
   \<and> distinct (map fst (trace (snd (main (demo_env (fault_at Dissolve ''ERROR 999999'')) (initial demo_store)))))
   \<and> OUTPUT_EXCEL_NAME (demo_env (fault_at Dissolve ''ERROR 999999''))
       \<notin> fst ` set (files (snd (main (demo_env (fault_at Dissolve ''ERROR 999999'')) (initial demo_store))))"
proof -
  let ?E = "demo_env (fault_at Dissolve ''ERROR 999999'')"
  note x = exception_in_try [OF demo_fault_staging demo_fault_try_body]
  from x have c1: "fst (main ?E (initial demo_store)) = Inr ()"
    and c5: "distinct (map fst (trace (snd (main ?E (initial demo_store)))))"
    and c7: "OUTPUT_EXCEL_NAME ?E \<notin> fst ` set (files (snd (main ?E (initial demo_store))))"
    by blast+
  from x have "filter (\<lambda>r. fst r = ERROR) (logfile (snd (main ?E (initial demo_store)))) =
           [(ERROR, (case ExecuteError ''ERROR 999999'' of
                       ExecuteError m \<Rightarrow> [Str ''ARCPY ERROR: '', Str m]
                     | _ \<Rightarrow> [Str (str_exn (ExecuteError ''ERROR 999999''))]))]"
    by blast
  then have c3: "filter (\<lambda>r. fst r = ERROR) (logfile (snd (main ?E (initial demo_store)))) =
           [(ERROR, [Str ''ARCPY ERROR: '', Str ''ERROR 999999''])]"
    by simp
  from c1 c3 c5 c7 show ?thesis by blast
qed

text \<open>
  C8 as stated fails for an exception raised while staging, which is outside the \<open>try\<close>
  block: when the copy of the building polygons fails, the exception is not caught and no
  record of level \<open>ERROR\<close> is logged.
\<close>

theorem exception_in_staging_counterexample:
  "fst (main (demo_env (fault_at Copy_building_polygon ''ERROR 000210'')) (initial demo_store))
     = Inl (ExecuteError ''ERROR 000210'')
   \<and> logfile (snd (main (demo_env (fault_at Copy_building_polygon ''ERROR 000210'')) (initial demo_store)))
     = [(INFO, [Str ''Preparing Workspace...''])]"
  by code_simp

text \<open>
  C10.  In a run whose aggregation has succeeded with the final frame \<open>f\<close>, the workbook is
  written if and only if \<open>f\<close> has a row labelled \<open>AREA 1\<close>.  When it has none, the run
  ends normally with the \<open>KeyError\<close> logged at level \<open>ERROR\<close>, and the files written are
  the three CSV files the aggregation wrote.
\<close>

theorem area_1_gate:
  assumes "fst (staging env (initial st)) = Inr locs"
    and "fst (aggregation env locs (snd (staging env (initial st)))) = Inr (f, sm)"
  shows "(OUTPUT_EXCEL_NAME env \<in> fst ` set (files (snd (main env (initial st))))
            \<longleftrightarrow> ''AREA 1'' \<in> fst ` set f)
       \<and> (''AREA 1'' \<notin> fst ` set f \<longrightarrow>
            fst (main env (initial st)) = Inr ()
          \<and> logfile (snd (main env (initial st))) =
              logfile (snd (aggregation env locs (snd (staging env (initial st)))))
                @ [(ERROR, [Str (str_exn (KeyError ''AREA 1''))])]
          \<and> files (snd (main env (initial st))) =
              files (snd (aggregation env locs (snd (staging env (initial st)))))
          \<and> map fst (files (snd (main env (initial st)))) =
              [''df_final.csv'', ''df_summary.csv'', ''df_original.csv''])"
proof -
  let ?s1 = "snd (staging env (initial st))"
  let ?s2 = "snd (aggregation env locs ?s1)"
  obtain gdb bp bu ca where locs: "locs = (gdb, bp, bu, ca)" by (cases locs)
  have ag: "aggregation env (gdb, bp, bu, ca) ?s1 = (Inr (f, sm), ?s2)"
    using pair_of_fst [OF assms(2)] locs by simp
  from aggregation_eq [OF ag] obtain tbl where
    fl: "files ?s2 = files ?s1 @
               [(''df_final.csv'', Csv (csv_final f)),
                (''df_summary.csv'', Csv (csv_summary sm)),
                (''df_original.csv'', Csv (csv_original (FeatureClassToNumPyArray tbl)))]"
    by blast
  have names2: "map fst (files ?s2) = [''df_final.csv'', ''df_summary.csv'', ''df_original.csv'']"
    using fl by (simp add: staging_initial(1))
  show ?thesis
  proof (cases "''AREA 1'' \<in> fst ` set f")
    case True
    from export_reached [OF assms True] obtain tbl where
      "files (snd (main env (initial st))) =
                  [(''df_final.csv'', Csv (csv_final f)),
                   (''df_summary.csv'', Csv (csv_summary sm)),
                   (''df_original.csv'', Csv (csv_original (FeatureClassToNumPyArray tbl))),
                   (OUTPUT_EXCEL_NAME env,
                    Excel [(''final'', sheet_final f), (''summary'', sheet_summary sm)])]"
      by (elim conjE exE)
    then have "OUTPUT_EXCEL_NAME env \<in> fst ` set (files (snd (main env (initial st))))"
      by simp
    with True show ?thesis by simp
  next
    case False
    then have n: "map_of f ''AREA 1'' = None" by (simp add: map_of_eq_None_iff)
    have m: "main env (initial st) = handler (KeyError ''AREA 1'') ?s2"
      unfolding main_after [OF assms(1,2)] sanity_checks_None [OF n] by simp
    have a: "fst (main env (initial st)) = Inr ()" unfolding m by (simp add: handler_eq)
    have b: "logfile (snd (main env (initial st))) = logfile ?s2 @ [(ERROR, [Str (str_exn (KeyError ''AREA 1''))])]"
      unfolding m by (simp add: handler_eq)
    have c: "files (snd (main env (initial st))) = files ?s2"
      unfolding m by (simp add: handler_eq)
    have d: "OUTPUT_EXCEL_NAME env \<notin> fst ` set (files (snd (main env (initial st))))"
    proof -
      have "fst ` set (files ?s2) = set (map fst (files ?s2))" by simp
      also have "\<dots> = csv_names" unfolding names2 by (simp add: csv_names_def)
      finally show ?thesis unfolding c using xlsx_not_csv by simp
    qed
    from False a b c d names2 show ?thesis by simp
  qed
qed

text \<open>C10 on the concrete run with areas labelled \<open>NORTH\<close> and \<open>SOUTH\<close>.\<close>

theorem area_1_gate_witness:
  "fst (main (demo_env no_fault) (initial demo_store_other_labels)) = Inr ()
   \<and> last (logfile (snd (main (demo_env no_fault) (initial demo_store_other_labels))))
       = (ERROR, [Str (str_exn (KeyError ''AREA 1''))])
   \<and> map fst (files (snd (main (demo_env no_fault) (initial demo_store_other_labels)))) =
       [''df_final.csv'', ''df_summary.csv'', ''df_original.csv'']"
proof -
  have a: "''AREA 1'' \<notin> fst ` set [(''NORTH'', 4::int, 1::int), (''SOUTH'', 0, 1), (''TOTAL'', 4, 2)]"
    by simp
  from area_1_gate [OF demo_other_staging demo_other_aggregation] a
  have c1: "fst (main (demo_env no_fault) (initial demo_store_other_labels)) = Inr ()"
    and c2: "logfile (snd (main (demo_env no_fault) (initial demo_store_other_labels))) =
              logfile (snd (aggregation (demo_env no_fault) (staged (demo_env no_fault))
                        (snd (staging (demo_env no_fault) (initial demo_store_other_labels)))))
                @ [(ERROR, [Str (str_exn (KeyError ''AREA 1''))])]"
    and c3: "map fst (files (snd (main (demo_env no_fault) (initial demo_store_other_labels)))) =
              [''df_final.csv'', ''df_summary.csv'', ''df_original.csv'']"
    by blast+
  have "last (logfile (snd (main (demo_env no_fault) (initial demo_store_other_labels))))
       = (ERROR, [Str (str_exn (KeyError ''AREA 1''))])"
    unfolding c2 by (rule last_snoc)
  with c1 c3 show ?thesis by blast
qed

section \<open>Claims on the geometry pipeline\<close>

text \<open>
  C6, as amended.  When the three inputs are in the store and no engine call fails,
  \<open>waste_analysis\<close> returns, and leaves one table.  The dissolve yields one polygon per
  distinct building identifier.  In the table, no building identifier appears twice, and the
  identifiers that appear are exactly those of the input whose merged polygon intersects at
  least one collection area: each such building has one row, with its merged shape, the
  number of areas it intersects, the label of the first of them and the unit count of its
  first building-use record (NULL when it has none).  A building that intersects no
  collection area has no row (the export keeps the rows with \<open>Join_Count > 0\<close>).
\<close>

theorem waste_analysis_table:
  assumes "store s bp = Some (Polygons ps)"
    and "store s bu = Some (UseTable us)"
    and "store s ca = Some (Areas areas)"
    and "ca \<noteq> os_path_join ws ''dissolved_building_polygons''"
    and "bu \<noteq> os_path_join ws ''dissolved_building_polygons''"
    and "bu \<noteq> os_path_join ws ''buildings_w_waste_areas''"
    and "fault env Dissolve = None" and "fault env SpatialJoin = None"
    and "fault env JoinField = None" and "fault env Export_joined = None"
    and "fault env GetCount = None"
  shows "fst (waste_analysis env ws bp bu ca s) = Inr (os_path_join ws ''buildings_w_waste_areas_blduse'')
       \<and> store (snd (waste_analysis env ws bp bu ca s)) (os_path_join ws ''buildings_w_waste_areas_blduse'')
           = Some (UseJoin (waste_table env ps us areas))
       \<and> distinct (map fst (Dissolve_rows (merge_parts env) ps))
       \<and> set (map fst (Dissolve_rows (merge_parts env) ps)) = fst ` set ps
       \<and> distinct (map fst (waste_table env ps us areas))
       \<and> set (map fst (waste_table env ps us areas)) =
           {b \<in> fst ` set ps.
              \<exists>a \<in> set areas. intersects env (building_shape (merge_parts env) ps b) (snd a)}
       \<and> waste_table env ps us areas =
           map (\<lambda>b. (b, building_shape (merge_parts env) ps b,
                     length (filter (\<lambda>a. intersects env (building_shape (merge_parts env) ps b) (snd a)) areas),
                     map_option fst (find (\<lambda>a. intersects env (building_shape (merge_parts env) ps b) (snd a)) areas),
                     (case find (\<lambda>u. fst u = b) us of None \<Rightarrow> None | Some u \<Rightarrow> snd u)))
               (filter (\<lambda>b. \<exists>a \<in> set areas. intersects env (building_shape (merge_parts env) ps b) (snd a))
                       (remdups (map fst ps)))"
proof -
  note r = waste_analysis_returns [OF assms]
  have d1: "distinct (map fst (Dissolve_rows (merge_parts env) ps))"
    by (simp add: Dissolve_rows_ids)
  have d2: "set (map fst (Dissolve_rows (merge_parts env) ps)) = fst ` set ps"
    by (simp add: Dissolve_rows_ids)
  have t1: "distinct (map fst (waste_table env ps us areas))"
    unfolding waste_table_ids by simp
  have t2: "set (map fst (waste_table env ps us areas)) =
           {b \<in> fst ` set ps.
              \<exists>a \<in> set areas. intersects env (building_shape (merge_parts env) ps b) (snd a)}"
    unfolding waste_table_ids by auto
  from r d1 d2 t1 t2 waste_table_rows [of env ps us areas] show ?thesis by blast
qed

text \<open>C6 as amended, on the concrete run: the table has the buildings 2 and 1.\<close>

theorem waste_analysis_table_witness:
  "fst (waste_analysis (demo_env no_fault) (working_gdb (demo_env no_fault))
          (os_path_join (working_gdb (demo_env no_fault)) ''BLD_building_polygon'')
          (os_path_join (working_gdb (demo_env no_fault)) ''BLD_BUILDING_USE'')
          (os_path_join (working_gdb (demo_env no_fault)) ''ADM_waste_coll_area'')
          (snd (staging (demo_env no_fault) (initial demo_store))))
     = Inr (os_path_join (working_gdb (demo_env no_fault)) ''buildings_w_waste_areas_blduse'')
   \<and> store (snd (waste_analysis (demo_env no_fault) (working_gdb (demo_env no_fault))
          (os_path_join (working_gdb (demo_env no_fault)) ''BLD_building_polygon'')
          (os_path_join (working_gdb (demo_env no_fault)) ''BLD_BUILDING_USE'')
          (os_path_join (working_gdb (demo_env no_fault)) ''ADM_waste_coll_area'')
          (snd (staging (demo_env no_fault) (initial demo_store)))))
        (os_path_join (working_gdb (demo_env no_fault)) ''buildings_w_waste_areas_blduse'')
     = Some (UseJoin [(2, [5], 1, Some ''AREA 2'', None), (1, [1, 2], 1, Some ''AREA 1'', Some 4)])"
proof -
  have p: "os_path_join (working_gdb (demo_env no_fault)) ''ADM_waste_coll_area''
             \<noteq> os_path_join (working_gdb (demo_env no_fault)) ''dissolved_building_polygons''"
    "os_path_join (working_gdb (demo_env no_fault)) ''BLD_BUILDING_USE''
             \<noteq> os_path_join (working_gdb (demo_env no_fault)) ''dissolved_building_polygons''"
    "os_path_join (working_gdb (demo_env no_fault)) ''BLD_BUILDING_USE''
             \<noteq> os_path_join (working_gdb (demo_env no_fault)) ''buildings_w_waste_areas''"
    by (simp_all add: os_path_join_def)
  have f: "fault (demo_env no_fault) Dissolve = None" "fault (demo_env no_fault) SpatialJoin = None"
    "fault (demo_env no_fault) JoinField = None" "fault (demo_env no_fault) Export_joined = None"
    "fault (demo_env no_fault) GetCount = None"
    by (simp_all add: demo_env_def no_fault_def)
  note t = waste_analysis_table [OF demo_local_stores p f]
  from t have a: "fst (waste_analysis (demo_env no_fault) (working_gdb (demo_env no_fault))
          (os_path_join (working_gdb (demo_env no_fault)) ''BLD_building_polygon'')
          (os_path_join (working_gdb (demo_env no_fault)) ''BLD_BUILDING_USE'')
          (os_path_join (working_gdb (demo_env no_fault)) ''ADM_waste_coll_area'')
          (snd (staging (demo_env no_fault) (initial demo_store))))
     = Inr (os_path_join (working_gdb (demo_env no_fault)) ''buildings_w_waste_areas_blduse'')"
    by (elim conjE)
  from t have b: "store (snd (waste_analysis (demo_env no_fault) (working_gdb (demo_env no_fault))
          (os_path_join (working_gdb (demo_env no_fault)) ''BLD_building_polygon'')
          (os_path_join (working_gdb (demo_env no_fault)) ''BLD_BUILDING_USE'')
          (os_path_join (working_gdb (demo_env no_fault)) ''ADM_waste_coll_area'')
          (snd (staging (demo_env no_fault) (initial demo_store)))))
        (os_path_join (working_gdb (demo_env no_fault)) ''buildings_w_waste_areas_blduse'')
     = Some (UseJoin (waste_table (demo_env no_fault) [(1, [1]), (2, [5]), (1, [2]), (3, [9])]
              [(1, Some 4), (2, None), (3, Some 2)] [(''AREA 1'', [1, 2, 3]), (''AREA 2'', [4, 5, 6])]))"
    by (elim conjE)
  from a b show ?thesis unfolding demo_waste_table_value by (rule conjI)
qed

text \<open>
  C6 as stated fails: building 3 of the input lies in no collection area, and the table
  \<open>waste_analysis\<close> has left at the end of the run has no row for it.
\<close>

theorem building_outside_areas_counterexample:
  "demo_store [''server.sde'', ''SDEADM.BLD_building_polygon'']
     = Some (Polygons [(1, [1]), (2, [5]), (1, [2]), (3, [9])])
   \<and> store (snd (main (demo_env no_fault) (initial demo_store)))
        [''scripts'', ''temp_workspace.gdb'', ''buildings_w_waste_areas_blduse'']
     = Some (UseJoin [(2, [5], 1, Some ''AREA 2'', None), (1, [1, 2], 1, Some ''AREA 1'', Some 4)])"
  by code_simp

text \<open>
  C7, as amended.  The spatial join has one row per building, in the order of the buildings.
  The row's \<open>Join_Count\<close> is the number of collection areas the building intersects, and
  its area is that of the first of them: a building that intersects no area carries none,
  and a building that carries an area label intersects an area with that label.
\<close>

theorem spatial_join_assignment:
  "map fst (SpatialJoin_rows isect ts js) = map fst ts
   \<and> (\<forall>r \<in> set (SpatialJoin_rows isect ts js).
        fst (snd (snd r)) = length (filter (\<lambda>j. isect (fst (snd r)) (snd j)) js)
      \<and> snd (snd (snd r)) = map_option fst (find (\<lambda>j. isect (fst (snd r)) (snd j)) js)
      \<and> (case snd (snd (snd r)) of
            None \<Rightarrow> \<not> (\<exists>j \<in> set js. isect (fst (snd r)) (snd j))
          | Some l \<Rightarrow> (\<exists>j \<in> set js. fst j = l \<and> isect (fst (snd r)) (snd j))))"
proof (intro conjI ballI)
  show "map fst (SpatialJoin_rows isect ts js) = map fst ts"
    by (simp add: SpatialJoin_rows_def comp_def)
next
  fix r assume "r \<in> set (SpatialJoin_rows isect ts js)"
  then obtain t where r: "r = (fst t, snd t,
               length (filter (\<lambda>a. isect (snd t) (snd a)) js),
               map_option fst (find (\<lambda>a. isect (snd t) (snd a)) js))"
    by (auto simp: SpatialJoin_rows_def)
  show "fst (snd (snd r)) = length (filter (\<lambda>j. isect (fst (snd r)) (snd j)) js)"
    by (simp add: r)
  show "snd (snd (snd r)) = map_option fst (find (\<lambda>j. isect (fst (snd r)) (snd j)) js)"
    by (simp add: r)
  show "case snd (snd (snd r)) of
            None \<Rightarrow> \<not> (\<exists>j \<in> set js. isect (fst (snd r)) (snd j))
          | Some l \<Rightarrow> (\<exists>j \<in> set js. fst j = l \<and> isect (fst (snd r)) (snd j))"
  proof (cases "find (\<lambda>a. isect (snd t) (snd a)) js")
    case None
    then have "\<not> (\<exists>j \<in> set js. isect (snd t) (snd j))"
      by (auto simp: find_None_iff)
    with None show ?thesis unfolding r by simp
  next
    case (Some j)
    then have "j \<in> set js" "isect (snd t) (snd j)"
      by (auto simp: find_Some_iff)
    then have "\<exists>j' \<in> set js. fst j' = fst j \<and> isect (snd t) (snd j')" by blast
    with Some show ?thesis unfolding r by simp
  qed
qed

text \<open>C7 as amended, on a building that intersects two areas.\<close>

theorem spatial_join_assignment_witness:
  "(1, [1, 2], 2, Some ''AREA 1'')
      \<in> set (SpatialJoin_rows cells_intersect [(1, [1, 2])] [(''AREA 1'', [2, 3]), (''AREA 2'', [1])])
   \<and> (\<exists>j \<in> set [(''AREA 1'', [2, 3]), (''AREA 2'', [1])]. fst j = ''AREA 1'' \<and> cells_intersect [1, 2] (snd j))"
proof -
  have m: "(1, [1, 2], 2, Some ''AREA 1'')
             \<in> set (SpatialJoin_rows cells_intersect [(1, [1, 2])] [(''AREA 1'', [2, 3]), (''AREA 2'', [1])])"
    unfolding demo_spatial_join by (rule list.set_intros(1))
  from spatial_join_assignment [of cells_intersect "[(1, [1, 2])]" "[(''AREA 1'', [2, 3]), (''AREA 2'', [1])]"]
  have "\<forall>r \<in> set (SpatialJoin_rows cells_intersect [(1, [1, 2])] [(''AREA 1'', [2, 3]), (''AREA 2'', [1])]).
          (case snd (snd (snd r)) of
            None \<Rightarrow> \<not> (\<exists>j \<in> set [(''AREA 1'', [2, 3]), (''AREA 2'', [1])]. cells_intersect (fst (snd r)) (snd j))
          | Some l \<Rightarrow> (\<exists>j \<in> set [(''AREA 1'', [2, 3]), (''AREA 2'', [1])]. fst j = l \<and> cells_intersect (fst (snd r)) (snd j)))"
    by blast
  from bspec [OF this m]
  have "\<exists>j \<in> set [(''AREA 1'', [2, 3]), (''AREA 2'', [1])]. fst j = ''AREA 1'' \<and> cells_intersect [1, 2] (snd j)"
    by simp
  with m show ?thesis by (rule conjI)
qed

text \<open>
  C7 as stated fails: a building that straddles the boundary of \<open>AREA 1\<close> and
  \<open>AREA 2\<close> is assigned to \<open>AREA 1\<close>, which it does not fall inside (the match option is
  \<open>INTERSECT\<close>), and its row does not carry \<open>AREA 2\<close>, which it intersects as well.
\<close>

theorem straddling_building_counterexample:
  "SpatialJoin_rows cells_intersect [(1, [1, 2])] [(''AREA 1'', [2, 3]), (''AREA 2'', [1])]
     = [(1, [1, 2], 2, Some ''AREA 1'')]
   \<and> \<not> cells_within [1, 2] [2, 3]"
  by code_simp

end
